theory Spec2Isabelle
  imports Complex_Main "HOL-Library.AList" "HOL-Library.Char_ord" "HOL-Library.List_Lexorder"
begin

section \<open>Python values used by the bot\<close>

text \<open>
  The bot (\<^verbatim>\<open>telegram_game_currency_bot.py\<close>) is an aiogram 2 program: handlers
  registered on a dispatcher, a per-user FSM context (state and data dictionary) kept in
  \<^verbatim>\<open>MemoryStorage\<close>, two SQLite tables (\<^verbatim>\<open>catalog\<close>, \<^verbatim>\<open>orders\<close>) and an HTTP client
  for the Crypto Pay gateway.

  Every exception the handlers can raise is a value of \<open>py_error\<close>. A handler writes
  to the FSM storage and to the tables as it goes, so a raise leaves what was written
  before it: a handler returns \<open>Inl\<close> of the error and the state it leaves, or \<open>Inr\<close> of
  the state it leaves and the replies it sent.
\<close>

datatype py_error =
    KeyError | ValueError | TypeError | AttributeError | IndexError
  | OverflowError | IntegrityError | InterfaceError | TelegramAPIError

text \<open>
  What \<^verbatim>\<open>r.json()\<close> returns and what is sent as a payload: Python's \<^verbatim>\<open>None\<close>, booleans,
  ints, floats (idealised as reals), strings, lists and dictionaries with string keys
  (an association list, in insertion order).
\<close>

datatype json =
    JNull
  | JBool bool
  | JInt int
  | JFloat real
  | JStr string
  | JArr "json list"
  | JObj "(string \<times> json) list"

text \<open>Python's truth value of an object (\<^verbatim>\<open>bool(x)\<close>, \<^verbatim>\<open>if x\<close>, \<^verbatim>\<open>not x\<close>).\<close>

fun truthy :: "json \<Rightarrow> bool" where
  "truthy JNull = False"
| "truthy (JBool b) = b"
| "truthy (JInt n) = (n \<noteq> 0)"
| "truthy (JFloat x) = (x \<noteq> 0)"
| "truthy (JStr s) = (s \<noteq> [])"
| "truthy (JArr xs) = (xs \<noteq> [])"
| "truthy (JObj kvs) = (kvs \<noteq> [])"

text \<open>
  \<^verbatim>\<open>x.get(k)\<close> and \<^verbatim>\<open>x.get(k, default)\<close>: only a dictionary has the method, anything else
  raises \<^verbatim>\<open>AttributeError\<close>. A missing key gives \<^verbatim>\<open>None\<close> (or the default); a key that is
  present with the value \<^verbatim>\<open>None\<close> gives \<^verbatim>\<open>None\<close> in both forms.
\<close>

definition dict_get_default :: "(string \<times> json) list \<Rightarrow> string \<Rightarrow> json \<Rightarrow> json" where
  "dict_get_default kvs k d = (case map_of kvs k of None \<Rightarrow> d | Some v \<Rightarrow> v)"

definition dict_get :: "(string \<times> json) list \<Rightarrow> string \<Rightarrow> json" where
  "dict_get kvs k = dict_get_default kvs k JNull"

fun py_get_default :: "json \<Rightarrow> string \<Rightarrow> json \<Rightarrow> py_error + json" where
  "py_get_default (JObj kvs) k d = Inr (dict_get_default kvs k d)"
| "py_get_default _ k d = Inl AttributeError"

definition py_get :: "json \<Rightarrow> string \<Rightarrow> py_error + json" where
  "py_get x k = py_get_default x k JNull"

text \<open>\<^verbatim>\<open>x[0]\<close> on a value that was found truthy (as \<^verbatim>\<open>get_invoice\<close> uses it).\<close>

fun py_item0 :: "json \<Rightarrow> py_error + json" where
  "py_item0 (JArr (x # xs)) = Inr x"
| "py_item0 (JArr []) = Inl IndexError"
| "py_item0 (JStr (c # cs)) = Inr (JStr [c])"
| "py_item0 (JStr []) = Inl IndexError"
| "py_item0 (JObj kvs) = Inl KeyError"
| "py_item0 _ = Inl TypeError"

subsection \<open>Strings\<close>

text \<open>
  A \<open>string\<close> is a list of 8-bit characters; each character stands for one code point
  (texts are taken in the Latin-1 range, where Python's \<^verbatim>\<open>len\<close> and \<open>length\<close> agree).
\<close>

definition startswith :: "string \<Rightarrow> string \<Rightarrow> bool" where
  "startswith s p = (take (length p) s = p)"

text \<open>\<^verbatim>\<open>s.split(sep)\<close> for a one-character separator: every occurrence splits.\<close>

fun py_split :: "char \<Rightarrow> string \<Rightarrow> string list" where
  "py_split sep [] = [[]]"
| "py_split sep (c # cs) =
     (if c = sep then [] # py_split sep cs
      else (case py_split sep cs of
              [] \<Rightarrow> [[c]]
            | w # ws \<Rightarrow> (c # w) # ws))"

text \<open>\<^verbatim>\<open>s.split(sep, 1)\<close>: at most one split, at the first occurrence.\<close>

definition py_split1 :: "char \<Rightarrow> string \<Rightarrow> string list" where
  "py_split1 sep s =
     (if sep \<in> set s
      then [takeWhile (\<lambda>c. c \<noteq> sep) s, tl (dropWhile (\<lambda>c. c \<noteq> sep) s)]
      else [s])"

text \<open>\<^verbatim>\<open>xs[1]\<close> on a list.\<close>

definition py_item1 :: "'a list \<Rightarrow> py_error + 'a" where
  "py_item1 xs = (case xs of _ # y # _ \<Rightarrow> Inr y | _ \<Rightarrow> Inl IndexError)"

text \<open>
  \<^verbatim>\<open>str.isspace\<close> on one character, for code points below 256: tab to carriage return,
  the four separators 28 to 31, space, NEL (133) and the no-break space (160).
\<close>

definition isspace :: "char \<Rightarrow> bool" where
  "isspace c =
     (let n = (of_char c :: nat)
      in (9 \<le> n \<and> n \<le> 13) \<or> (28 \<le> n \<and> n \<le> 32) \<or> n = 133 \<or> n = 160)"

text \<open>\<^verbatim>\<open>s.strip()\<close>: leading and trailing whitespace removed.\<close>

definition strip :: "string \<Rightarrow> string" where
  "strip s = rev (dropWhile isspace (rev (dropWhile isspace s)))"

definition isdigit :: "char \<Rightarrow> bool" where
  "isdigit c = (let n = (of_char c :: nat) in 48 \<le> n \<and> n \<le> 57)"

definition digit_val :: "char \<Rightarrow> nat" where
  "digit_val c = (of_char c :: nat) - 48"

text \<open>
  The digits of a decimal literal as \<^verbatim>\<open>int(s)\<close> reads them: at least one digit, and
  single underscores allowed between digits.
\<close>

fun digits_val :: "nat \<Rightarrow> string \<Rightarrow> nat option" where
  "digits_val acc [] = None"
| "digits_val acc [c] = (if isdigit c then Some (acc * 10 + digit_val c) else None)"
| "digits_val acc (c # d # cs) =
     (if isdigit c
      then (if d = CHR ''_'' then digits_val (acc * 10 + digit_val c) cs
            else digits_val (acc * 10 + digit_val c) (d # cs))
      else None)"

text \<open>
  The whitespace \<^verbatim>\<open>int(s)\<close> skips around the literal is narrower than that of
  \<^verbatim>\<open>str.strip\<close>: tab to carriage return and space, and of the code points from 127 on
  those that are Unicode whitespace (133 and 160 below 256). The separators 28 to 31
  are not skipped: \<^verbatim>\<open>int\<close> raises \<^verbatim>\<open>ValueError\<close> on them.
\<close>

definition int_isspace :: "char \<Rightarrow> bool" where
  "int_isspace c =
     (let n = (of_char c :: nat)
      in (9 \<le> n \<and> n \<le> 13) \<or> n = 32 \<or> n = 133 \<or> n = 160)"

definition int_strip :: "string \<Rightarrow> string" where
  "int_strip s = rev (dropWhile int_isspace (rev (dropWhile int_isspace s)))"

text \<open>
  \<^verbatim>\<open>int(s)\<close> for a string: that whitespace is skipped on both sides, then an optional
  sign, then the digits; anything else raises \<^verbatim>\<open>ValueError\<close>.
\<close>

definition py_int_str :: "string \<Rightarrow> py_error + int" where
  "py_int_str s =
     (case int_strip s of
        [] \<Rightarrow> Inl ValueError
      | c # cs \<Rightarrow>
          (if c = CHR ''-'' then
             (case digits_val 0 cs of None \<Rightarrow> Inl ValueError | Some n \<Rightarrow> Inr (- int n))
           else if c = CHR ''+'' then
             (case digits_val 0 cs of None \<Rightarrow> Inl ValueError | Some n \<Rightarrow> Inr (int n))
           else
             (case digits_val 0 (c # cs) of None \<Rightarrow> Inl ValueError | Some n \<Rightarrow> Inr (int n))))"

text \<open>
  \<^verbatim>\<open>int(x)\<close> for a value of a gateway response: \<^verbatim>\<open>None\<close>, lists and dictionaries raise
  \<^verbatim>\<open>TypeError\<close>, a float is truncated towards zero, a string is parsed.
\<close>

fun py_int :: "json \<Rightarrow> py_error + int" where
  "py_int JNull = Inl TypeError"
| "py_int (JBool b) = Inr (if b then 1 else 0)"
| "py_int (JInt n) = Inr n"
| "py_int (JFloat x) = Inr (if 0 \<le> x then \<lfloor>x\<rfloor> else \<lceil>x\<rceil>)"
| "py_int (JStr s) = py_int_str s"
| "py_int (JArr xs) = Inl TypeError"
| "py_int (JObj kvs) = Inl TypeError"

text \<open>\<^verbatim>\<open>str(n)\<close> of an int, as the f-string of \<^verbatim>\<open>pay_kb\<close> formats the invoice id.\<close>

definition digit_char :: "nat \<Rightarrow> char" where
  "digit_char d = char_of (48 + d)"

fun str_nat :: "nat \<Rightarrow> string" where
  "str_nat n = (if n < 10 then [digit_char n] else str_nat (n div 10) @ [digit_char (n mod 10)])"

declare str_nat.simps [simp del]

definition str_int :: "int \<Rightarrow> string" where
  "str_int i = (if i < 0 then CHR ''-'' # str_nat (nat (- i)) else str_nat (nat i))"

section \<open>Payment gateway client\<close>

text \<open>
  The network is a parameter: \<open>post method payload\<close> is what
  \<^verbatim>\<open>requests.post(url, ...)\<close>, \<^verbatim>\<open>r.raise_for_status()\<close> and \<^verbatim>\<open>r.json()\<close> give for the URL
  \<^verbatim>\<open>CRYPTO_PAY_BASE/method\<close>: either one of them raised (transport failure, timeout,
  HTTP error status, a body that is not JSON), with the text of the exception, or the
  decoded body.
\<close>

datatype http = HttpRaised string | HttpJson json

type_synonym network = "string \<Rightarrow> json \<Rightarrow> http"

text \<open>The text of the \<^verbatim>\<open>AttributeError\<close> of \<^verbatim>\<open>data.get\<close> on a body that is no dictionary.\<close>

fun no_get_msg :: "json \<Rightarrow> string" where
  "no_get_msg JNull = ''NoneType object has no attribute get''"
| "no_get_msg (JBool b) = ''bool object has no attribute get''"
| "no_get_msg (JInt n) = ''int object has no attribute get''"
| "no_get_msg (JFloat x) = ''float object has no attribute get''"
| "no_get_msg (JStr s) = ''str object has no attribute get''"
| "no_get_msg (JArr xs) = ''list object has no attribute get''"
| "no_get_msg (JObj kvs) = []"

text \<open>
  \<^verbatim>\<open>crypto_pay\<close>: everything is inside \<^verbatim>\<open>try\<close>, and \<^verbatim>\<open>except Exception\<close> turns any raise
  (also the one of \<^verbatim>\<open>data.get\<close> on a body that is not a dictionary) into
  \<^verbatim>\<open>(False, {"error": str(e)})\<close>.
\<close>

definition crypto_pay :: "network \<Rightarrow> string \<Rightarrow> json \<Rightarrow> bool \<times> (string \<times> json) list" where
  "crypto_pay post method payload =
     (case post method payload of
        HttpRaised e \<Rightarrow> (False, [(''error'', JStr e)])
      | HttpJson (JObj data) \<Rightarrow> (truthy (dict_get data ''ok''), data)
      | HttpJson body \<Rightarrow> (False, [(''error'', JStr (no_get_msg body))]))"

text \<open>
  \<^verbatim>\<open>round(amount, 2)\<close> rounds a double, which is floating-point arithmetic and is not
  modelled: \<open>round2\<close> is a parameter, the function that \<^verbatim>\<open>round(x, 2)\<close> computes.
\<close>

definition create_invoice ::
  "network \<Rightarrow> (real \<Rightarrow> real) \<Rightarrow> string \<Rightarrow> real \<Rightarrow> string \<Rightarrow> string \<Rightarrow> json" where
  "create_invoice post round2 asset amount description payload =
     (let (ok, data) =
            crypto_pay post ''createInvoice''
              (JObj [(''asset'', JStr asset),
                     (''amount'', JFloat (round2 amount)),
                     (''description'', JStr description),
                     (''payload'', JStr payload)])
      in if ok then dict_get data ''result'' else JNull)"

definition get_invoice :: "network \<Rightarrow> int \<Rightarrow> py_error + json" where
  "get_invoice post invoice_id =
     (let (ok, data) =
            crypto_pay post ''getInvoices'' (JObj [(''invoice_ids'', JArr [JInt invoice_id])])
      in if ok then
           (case py_get_default (dict_get_default data ''result'' (JObj [])) ''items'' (JArr []) of
              Inl e \<Rightarrow> Inl e
            | Inr arr \<Rightarrow> if truthy arr then py_item0 arr else Inr JNull)
         else Inr JNull)"

section \<open>The tables\<close>

record catalog_row =
  c_id :: int
  c_game :: string
  c_package :: string
  c_price_usdt :: real

type_synonym catalog = "catalog_row list"

text \<open>
  \<^verbatim>\<open>SELECT price_usdt FROM catalog WHERE game=? AND package=?\<close> followed by
  \<^verbatim>\<open>fetchone()\<close>: the first matching row (the table has no uniqueness constraint on the
  pair), or \<^verbatim>\<open>None\<close>.
\<close>

definition select_price :: "catalog \<Rightarrow> string \<Rightarrow> string \<Rightarrow> real option" where
  "select_price cat g p =
     (case filter (\<lambda>r. c_game r = g \<and> c_package r = p) cat of
        [] \<Rightarrow> None
      | r # _ \<Rightarrow> Some (c_price_usdt r))"

record order =
  o_id :: string
  o_user_id :: int
  o_username :: "string option"
  o_game :: string
  o_package :: string
  o_price_usdt :: real
  o_asset :: string
  o_nickname :: string
  o_created_at :: int
  o_status :: string
  o_invoice_id :: int
  o_pay_url :: json

text \<open>
  \<^verbatim>\<open>INSERT INTO orders VALUES(...)\<close>: sqlite3 first binds the parameters (an int outside
  64 bits raises \<^verbatim>\<open>OverflowError\<close>; \<^verbatim>\<open>pay_url\<close>, the last one, raises an interface error
  when it is a list or a dictionary), then the primary key on \<^verbatim>\<open>id\<close> rejects a duplicate
  with \<^verbatim>\<open>IntegrityError\<close>.
\<close>

fun sql_bindable :: "json \<Rightarrow> bool" where
  "sql_bindable (JArr xs) = False"
| "sql_bindable (JObj kvs) = False"
| "sql_bindable _ = True"

definition sql_int :: "int \<Rightarrow> bool" where
  "sql_int n = (- (2 ^ 63) \<le> n \<and> n < 2 ^ 63)"

definition insert_order :: "order \<Rightarrow> order list \<Rightarrow> py_error + order list" where
  "insert_order ord rows =
     (if \<not> sql_int (o_user_id ord) \<or> \<not> sql_int (o_created_at ord) \<or> \<not> sql_int (o_invoice_id ord)
      then Inl OverflowError
      else if \<not> sql_bindable (o_pay_url ord) then Inl InterfaceError
      else if o_id ord \<in> set (map o_id rows) then Inl IntegrityError
      else Inr (rows @ [ord]))"

text \<open>\<^verbatim>\<open>UPDATE orders SET status='paid' WHERE id=?\<close>; no row with the id is no error.\<close>

definition set_paid :: "string \<Rightarrow> order list \<Rightarrow> order list" where
  "set_paid oid rows = map (\<lambda>r. if o_id r = oid then r\<lparr>o_status := ''paid''\<rparr> else r) rows"

section \<open>The order flow\<close>

datatype OrderFSM = choosing_game | choosing_package | entering_nickname | choosing_asset

text \<open>
  The FSM context of one chat and user in \<^verbatim>\<open>MemoryStorage\<close>: the current state
  (\<open>None\<close> is aiogram's default state, the one of a user never seen and the one after
  \<^verbatim>\<open>finish\<close>) and the data dictionary.
\<close>

record fsm_ctx =
  fsm_state :: "OrderFSM option"
  fsm_data :: "(string \<times> string) list"

text \<open>\<^verbatim>\<open>state.finish()\<close> resets the state to the default one and empties the data.\<close>

definition finish :: "fsm_ctx \<Rightarrow> fsm_ctx" where
  "finish ctx = \<lparr>fsm_state = None, fsm_data = []\<rparr>"

text \<open>\<^verbatim>\<open>state.update_data(k=v)\<close> is \<^verbatim>\<open>dict.update\<close> on the data.\<close>

definition update_data :: "string \<Rightarrow> string \<Rightarrow> fsm_ctx \<Rightarrow> fsm_ctx" where
  "update_data k v ctx = ctx\<lparr>fsm_data := AList.update k v (fsm_data ctx)\<rparr>"

definition set_state :: "OrderFSM \<Rightarrow> fsm_ctx \<Rightarrow> fsm_ctx" where
  "set_state st ctx = ctx\<lparr>fsm_state := Some st\<rparr>"

text \<open>\<^verbatim>\<open>data[k]\<close>.\<close>

definition dict_item :: "(string \<times> 'v) list \<Rightarrow> string \<Rightarrow> py_error + 'v" where
  "dict_item kvs k = (case map_of kvs k of None \<Rightarrow> Inl KeyError | Some v \<Rightarrow> Inr v)"

subsection \<open>Keyboards and replies\<close>

text \<open>
  A keyboard is the list of its buttons, each with what pressing it sends: callback
  data or a URL. Button labels and message wording are presentation; a message is
  named by a constructor that carries the values formatted into it.
\<close>

datatype button = CallbackButton string | UrlButton json

type_synonym keyboard = "button list"

datatype msg_text =
    TxtChooseGame
  | TxtChoosePackage string
  | TxtSendNickname
  | TxtChooseAsset
  | TxtPriceError
  | TxtInvoiceFailed
  | TxtOrderSummary string string string string real string
  | TxtCheckError
  | TxtPaid string
  | TxtNotYet
  | TxtInvoiceInvalid

text \<open>
  \<open>Answer\<close> is \<^verbatim>\<open>m.answer(text, reply_markup=kb)\<close>, \<open>EditText\<close> is
  \<^verbatim>\<open>c.message.edit_text(text, reply_markup=kb)\<close> (no markup: the empty keyboard) and
  \<open>Alert\<close> is \<^verbatim>\<open>c.answer(text, show_alert=True)\<close>.
\<close>

datatype reply = Answer msg_text keyboard | EditText msg_text keyboard | Alert msg_text

definition ASSETS :: "string list" where
  "ASSETS = [''USDT'', ''TON'']"

text \<open>\<^verbatim>\<open>SELECT DISTINCT game FROM catalog ORDER BY game\<close>.\<close>

definition games_kb :: "catalog \<Rightarrow> keyboard" where
  "games_kb cat = map (\<lambda>g. CallbackButton (''game:'' @ g)) (sort (remdups (map c_game cat)))"

text \<open>
  \<^verbatim>\<open>SELECT package, price_usdt FROM catalog WHERE game=? ORDER BY price_usdt\<close>, then the
  back button.
\<close>

definition packages_kb :: "catalog \<Rightarrow> string \<Rightarrow> keyboard" where
  "packages_kb cat g =
     map (\<lambda>r. CallbackButton (''pkg:'' @ c_package r))
       (sort_key c_price_usdt (filter (\<lambda>r. c_game r = g) cat))
     @ [CallbackButton ''back:games'']"

definition assets_kb :: keyboard where
  "assets_kb = map (\<lambda>a. CallbackButton (''asset:'' @ a)) ASSETS @ [CallbackButton ''back:packages'']"

definition pay_kb :: "json \<Rightarrow> string \<Rightarrow> int \<Rightarrow> keyboard" where
  "pay_kb pay_url order_id invoice_id =
     [UrlButton pay_url, CallbackButton (''check:'' @ order_id @ '':'' @ str_int invoice_id)]"

subsection \<open>Updates and the environment of one handler run\<close>

text \<open>
  \<open>m_is_start\<close> is the verdict of aiogram's \<^verbatim>\<open>commands=["start"]\<close> filter on the message
  (library code, taken as given).
\<close>

record message =
  m_chat :: int
  m_user :: int
  m_text :: "string option"
  m_is_start :: bool

record callback =
  cb_chat :: int
  cb_user :: int
  cb_username :: "string option"
  cb_data :: string

datatype update = Message message | CallbackQuery callback

text \<open>
  What a handler meets outside while it runs: the catalog table as it is then, the
  value of \<^verbatim>\<open>uuid4().hex\<close>, the value of \<^verbatim>\<open>int(time.time())\<close>, the network of the gateway,
  the function \<^verbatim>\<open>round(x, 2)\<close>, and Telegram: \<open>env_telegram e r\<close> says whether the call
  that sends \<open>r\<close> returns; when it does not, the call raises and the handler stops there.
\<close>

record env =
  env_catalog :: catalog
  env_uuid_hex :: string
  env_time :: int
  env_post :: network
  env_round2 :: "real \<Rightarrow> real"
  env_telegram :: "reply \<Rightarrow> bool"

subsection \<open>Handlers\<close>

text \<open>
  Each handler follows the order of its statements in the source. The writes to the FSM
  storage (\<^verbatim>\<open>update_data\<close>, \<^verbatim>\<open>set\<close>, \<^verbatim>\<open>finish\<close>) and to the tables take effect where they
  stand; a raise, also the one of a Telegram call, keeps the writes made before it and
  skips the statements after it.
\<close>

type_synonym 's raised = "py_error \<times> 's"

definition cmd_start :: "env \<Rightarrow> fsm_ctx \<Rightarrow> fsm_ctx raised + fsm_ctx \<times> reply list" where
  "cmd_start e ctx =
     (let ctx1 = finish ctx;
          r = Answer TxtChooseGame (games_kb (env_catalog e))
      in if env_telegram e r then Inr (ctx1, [r]) else Inl (TelegramAPIError, ctx1))"

definition pick_game :: "env \<Rightarrow> callback \<Rightarrow> fsm_ctx \<Rightarrow> fsm_ctx raised + fsm_ctx \<times> reply list" where
  "pick_game e c ctx =
     (case py_item1 (py_split1 CHR '':'' (cb_data c)) of
        Inl err \<Rightarrow> Inl (err, ctx)
      | Inr g \<Rightarrow>
          (let ctx1 = set_state choosing_package (update_data ''game'' g ctx);
               r = EditText (TxtChoosePackage g) (packages_kb (env_catalog e) g)
           in if env_telegram e r then Inr (ctx1, [r]) else Inl (TelegramAPIError, ctx1)))"

definition pick_package :: "env \<Rightarrow> callback \<Rightarrow> fsm_ctx \<Rightarrow> fsm_ctx raised + fsm_ctx \<times> reply list" where
  "pick_package e c ctx =
     (case py_item1 (py_split1 CHR '':'' (cb_data c)) of
        Inl err \<Rightarrow> Inl (err, ctx)
      | Inr pkg \<Rightarrow>
          (let ctx1 = set_state entering_nickname (update_data ''package'' pkg ctx);
               r = EditText TxtSendNickname []
           in if env_telegram e r then Inr (ctx1, [r]) else Inl (TelegramAPIError, ctx1)))"

text \<open>The filter of \<^verbatim>\<open>got_nickname\<close>: \<^verbatim>\<open>m.text and len(m.text) > 1\<close>.\<close>

definition nickname_filter :: "message \<Rightarrow> bool" where
  "nickname_filter m = (case m_text m of None \<Rightarrow> False | Some t \<Rightarrow> t \<noteq> [] \<and> 1 < length t)"

definition got_nickname :: "env \<Rightarrow> message \<Rightarrow> fsm_ctx \<Rightarrow> fsm_ctx raised + fsm_ctx \<times> reply list" where
  "got_nickname e m ctx =
     (case m_text m of
        None \<Rightarrow> Inl (AttributeError, ctx)
      | Some t \<Rightarrow>
          (let nick = strip t;
               ctx1 = set_state choosing_asset (update_data ''nickname'' nick ctx);
               r = Answer TxtChooseAsset assets_kb
           in if env_telegram e r then Inr (ctx1, [r]) else Inl (TelegramAPIError, ctx1)))"

text \<open>
  \<^verbatim>\<open>choose_asset\<close>. On a missing price the alert is sent and then the session is
  finished. On the commit the row is inserted and committed first, then the message is
  edited, and only then the session is finished: when the edit raises, the row stays
  and the session is still the one the handler found.
\<close>

definition choose_asset ::
  "env \<Rightarrow> callback \<Rightarrow> fsm_ctx \<Rightarrow> order list \<Rightarrow>
   (fsm_ctx \<times> order list) raised + fsm_ctx \<times> order list \<times> reply list" where
  "choose_asset e c ctx rows =
     (case py_item1 (py_split1 CHR '':'' (cb_data c)) of
        Inl err \<Rightarrow> Inl (err, ctx, rows) | Inr asset \<Rightarrow>
     (case dict_item (fsm_data ctx) ''game'' of Inl err \<Rightarrow> Inl (err, ctx, rows) | Inr g \<Rightarrow>
     (case dict_item (fsm_data ctx) ''package'' of Inl err \<Rightarrow> Inl (err, ctx, rows) | Inr pkg \<Rightarrow>
     (case dict_item (fsm_data ctx) ''nickname'' of Inl err \<Rightarrow> Inl (err, ctx, rows) | Inr nick \<Rightarrow>
     (case select_price (env_catalog e) g pkg of
        None \<Rightarrow>
          if env_telegram e (Alert TxtPriceError)
          then Inr (finish ctx, rows, [Alert TxtPriceError])
          else Inl (TelegramAPIError, ctx, rows)
      | Some price \<Rightarrow>
          (let order_id = take 12 (env_uuid_hex e);
               desc = g @ '' - '' @ pkg @ '' (nick: '' @ nick @ '')'';
               invoice = create_invoice (env_post e) (env_round2 e) asset price desc order_id
           in if \<not> truthy invoice then
                (if env_telegram e (Alert TxtInvoiceFailed)
                 then Inr (ctx, rows, [Alert TxtInvoiceFailed])
                 else Inl (TelegramAPIError, ctx, rows))
              else
                (case py_get invoice ''pay_url'' of
                   Inl err \<Rightarrow> Inl (err, ctx, rows) | Inr pay_url \<Rightarrow>
                (case py_get invoice ''invoice_id'' of
                   Inl err \<Rightarrow> Inl (err, ctx, rows) | Inr iid \<Rightarrow>
                (case py_int iid of
                   Inl err \<Rightarrow> Inl (err, ctx, rows) | Inr invoice_id \<Rightarrow>
                (case insert_order
                        \<lparr>o_id = order_id, o_user_id = cb_user c, o_username = cb_username c,
                         o_game = g, o_package = pkg, o_price_usdt = price, o_asset = asset,
                         o_nickname = nick, o_created_at = env_time e, o_status = ''pending'',
                         o_invoice_id = invoice_id, o_pay_url = pay_url\<rparr> rows of
                   Inl err \<Rightarrow> Inl (err, ctx, rows)
                 | Inr rows' \<Rightarrow>
                     (let r = EditText (TxtOrderSummary order_id g pkg nick price asset)
                                (pay_kb pay_url order_id invoice_id)
                      in if env_telegram e r
                         then Inr (finish ctx, rows', [r])
                         else Inl (TelegramAPIError, ctx, rows'))))))))))))"

definition check_payment ::
  "env \<Rightarrow> callback \<Rightarrow> order list \<Rightarrow> order list raised + order list \<times> reply list" where
  "check_payment e c rows =
     (case py_split CHR '':'' (cb_data c) of
        [u, order_id, invoice_id] \<Rightarrow>
          (case py_int_str invoice_id of Inl err \<Rightarrow> Inl (err, rows) | Inr n \<Rightarrow>
          (case get_invoice (env_post e) n of Inl err \<Rightarrow> Inl (err, rows) | Inr invc \<Rightarrow>
             if \<not> truthy invc then
               (if env_telegram e (Alert TxtCheckError)
                then Inr (rows, [Alert TxtCheckError])
                else Inl (TelegramAPIError, rows))
             else
               (case py_get invc ''status'' of Inl err \<Rightarrow> Inl (err, rows) | Inr status \<Rightarrow>
                  if status = JStr ''paid'' then
                    (if env_telegram e (EditText (TxtPaid order_id) [])
                     then Inr (set_paid order_id rows, [EditText (TxtPaid order_id) []])
                     else Inl (TelegramAPIError, set_paid order_id rows))
                  else if status = JStr ''active'' then
                    (if env_telegram e (Alert TxtNotYet)
                     then Inr (rows, [Alert TxtNotYet])
                     else Inl (TelegramAPIError, rows))
                  else
                    (if env_telegram e (EditText TxtInvoiceInvalid [])
                     then Inr (rows, [EditText TxtInvoiceInvalid []])
                     else Inl (TelegramAPIError, rows)))))
      | _ \<Rightarrow> Inl (ValueError, rows))"


subsection \<open>The dispatcher\<close>

text \<open>
  The whole state: the FSM storage, keyed by chat and user (a key never written has the
  default state and no data), and the \<^verbatim>\<open>orders\<close> table.
\<close>

record world =
  storage :: "int \<times> int \<Rightarrow> fsm_ctx"
  orders :: "order list"

definition init_world :: world where
  "init_world = \<lparr>storage = (\<lambda>k. \<lparr>fsm_state = None, fsm_data = []\<rparr>), orders = []\<rparr>"

text \<open>
  aiogram 2 runs the first registered handler of the update's kind whose filters all
  pass, and none when no handler passes. A handler registered with \<^verbatim>\<open>state="*"\<close> passes in
  every state, one registered with a state only in that state, and one registered with
  no \<^verbatim>\<open>state\<close> argument only in the default state. The handlers are tried in the order of
  the source: for a message \<^verbatim>\<open>cmd_start\<close>, \<^verbatim>\<open>got_nickname\<close>; for a callback query
  \<^verbatim>\<open>pick_game\<close>, \<^verbatim>\<open>pick_package\<close>, \<^verbatim>\<open>choose_asset\<close>, \<^verbatim>\<open>check_payment\<close>.
\<close>

definition put_ctx :: "int \<times> int \<Rightarrow> fsm_ctx \<Rightarrow> world \<Rightarrow> world" where
  "put_ctx k ctx w = w\<lparr>storage := (storage w)(k := ctx)\<rparr>"

definition process_message :: "env \<Rightarrow> message \<Rightarrow> world \<Rightarrow> world raised + world \<times> reply list" where
  "process_message e m w =
     (let k = (m_chat m, m_user m); ctx = storage w k
      in if m_is_start m \<and> fsm_state ctx = None then
           (case cmd_start e ctx of
              Inl (err, ctx') \<Rightarrow> Inl (err, put_ctx k ctx' w)
            | Inr (ctx', rs) \<Rightarrow> Inr (put_ctx k ctx' w, rs))
         else if nickname_filter m \<and> fsm_state ctx = Some entering_nickname then
           (case got_nickname e m ctx of
              Inl (err, ctx') \<Rightarrow> Inl (err, put_ctx k ctx' w)
            | Inr (ctx', rs) \<Rightarrow> Inr (put_ctx k ctx' w, rs))
         else Inr (w, []))"

definition process_callback :: "env \<Rightarrow> callback \<Rightarrow> world \<Rightarrow> world raised + world \<times> reply list" where
  "process_callback e c w =
     (let k = (cb_chat c, cb_user c); ctx = storage w k
      in if startswith (cb_data c) ''game:'' then
           (case pick_game e c ctx of
              Inl (err, ctx') \<Rightarrow> Inl (err, put_ctx k ctx' w)
            | Inr (ctx', rs) \<Rightarrow> Inr (put_ctx k ctx' w, rs))
         else if startswith (cb_data c) ''pkg:'' \<and> fsm_state ctx = Some choosing_package then
           (case pick_package e c ctx of
              Inl (err, ctx') \<Rightarrow> Inl (err, put_ctx k ctx' w)
            | Inr (ctx', rs) \<Rightarrow> Inr (put_ctx k ctx' w, rs))
         else if startswith (cb_data c) ''asset:'' \<and> fsm_state ctx = Some choosing_asset then
           (case choose_asset e c ctx (orders w) of
              Inl (err, ctx', rows') \<Rightarrow> Inl (err, (put_ctx k ctx' w)\<lparr>orders := rows'\<rparr>)
            | Inr (ctx', rows', rs) \<Rightarrow> Inr ((put_ctx k ctx' w)\<lparr>orders := rows'\<rparr>, rs))
         else if startswith (cb_data c) ''check:'' \<and> fsm_state ctx = None then
           (case check_payment e c (orders w) of
              Inl (err, rows') \<Rightarrow> Inl (err, w\<lparr>orders := rows'\<rparr>)
            | Inr (rows', rs) \<Rightarrow> Inr (w\<lparr>orders := rows'\<rparr>, rs))
         else Inr (w, []))"

fun process_update :: "env \<Rightarrow> update \<Rightarrow> world \<Rightarrow> world raised + world \<times> reply list" where
  "process_update e (Message m) w = process_message e m w"
| "process_update e (CallbackQuery c) w = process_callback e c w"

text \<open>
  aiogram logs the exception of a handler that raises and goes on with the next update,
  on the state that handler left. Updates are taken one after another: a run is a
  sequence of whole handler runs.
\<close>

definition step :: "env \<times> update \<Rightarrow> world \<Rightarrow> world" where
  "step eu w =
     (case process_update (fst eu) (snd eu) w of Inl (err, w') \<Rightarrow> w' | Inr (w', rs) \<Rightarrow> w')"

fun run :: "(env \<times> update) list \<Rightarrow> world \<Rightarrow> world" where
  "run [] w = w"
| "run (eu # eus) w = run eus (step eu w)"

section \<open>Reconciliation steps in a run\<close>

text \<open>
  \<open>paid_check eu w\<close> reads one update, its environment and the state it arrives in: when
  the update is a callback that the dispatcher gives to \<open>check_payment\<close> (data starting
  with \<^verbatim>\<open>check:\<close>, session in the default state), its data names an order \<open>oid\<close> and a
  payment request \<open>n\<close>, and the gateway, asked for \<open>n\<close> in that environment, returns a
  record whose status is \<^verbatim>\<open>"paid"\<close>, it is \<open>Some (oid, n)\<close>. \<open>paid_checks\<close> collects these
  pairs along a run.
\<close>

definition paid_check :: "env \<times> update \<Rightarrow> world \<Rightarrow> (string \<times> int) option" where
  "paid_check eu w =
     (case snd eu of
        Message m \<Rightarrow> None
      | CallbackQuery c \<Rightarrow>
          if startswith (cb_data c) ''check:''
             \<and> fsm_state (storage w (cb_chat c, cb_user c)) = None then
            (case py_split CHR '':'' (cb_data c) of
               [u, order_id, invoice_id] \<Rightarrow>
                 (case py_int_str invoice_id of
                    Inl err \<Rightarrow> None
                  | Inr n \<Rightarrow>
                      (case get_invoice (env_post (fst eu)) n of
                         Inl err \<Rightarrow> None
                       | Inr invc \<Rightarrow>
                           if truthy invc \<and> py_get invc ''status'' = Inr (JStr ''paid'')
                           then Some (order_id, n) else None))
             | _ \<Rightarrow> None)
          else None)"

fun paid_checks :: "(env \<times> update) list \<Rightarrow> world \<Rightarrow> (string \<times> int) list" where
  "paid_checks [] w = []"
| "paid_checks (eu # eus) w =
     (case paid_check eu w of
        None \<Rightarrow> paid_checks eus (step eu w)
      | Some p \<Rightarrow> p # paid_checks eus (step eu w))"

section \<open>Concrete data\<close>

text \<open>The rows \<^verbatim>\<open>ensure_sample_catalog\<close> inserts into an empty catalog.\<close>

definition sample_catalog :: catalog where
  "sample_catalog =
     [\<lparr>c_id = 1, c_game = ''Genshin Impact'', c_package = ''60 Genesis Crystals'',
       c_price_usdt = 11 / 10\<rparr>,
      \<lparr>c_id = 2, c_game = ''Genshin Impact'', c_package = ''330 Genesis Crystals'',
       c_price_usdt = 11 / 2\<rparr>,
      \<lparr>c_id = 3, c_game = ''World of Warcraft'', c_package = ''Gold 100k (EU)'',
       c_price_usdt = 7\<rparr>]"

text \<open>
  A gateway that creates invoice 42, reports invoice 42 as expired and invoice 99 as
  paid, and knows no other invoice.
\<close>

definition items_response :: "json list \<Rightarrow> http" where
  "items_response items =
     HttpJson (JObj [(''ok'', JBool True), (''result'', JObj [(''items'', JArr items)])])"

definition ex_gateway :: network where
  "ex_gateway method payload =
     (if method = ''createInvoice'' then
        HttpJson (JObj [(''ok'', JBool True),
                        (''result'', JObj [(''invoice_id'', JInt 42),
                                           (''pay_url'', JStr ''https://pay.example/42''),
                                           (''status'', JStr ''active'')])])
      else if payload = JObj [(''invoice_ids'', JArr [JInt 42])] then
        items_response [JObj [(''invoice_id'', JInt 42), (''status'', JStr ''expired'')]]
      else if payload = JObj [(''invoice_ids'', JArr [JInt 99])] then
        items_response [JObj [(''invoice_id'', JInt 99), (''status'', JStr ''paid'')]]
      else items_response [])"

text \<open>A gateway that cannot be reached.\<close>

definition down_gateway :: network where
  "down_gateway method payload = HttpRaised ''timed out''"

text \<open>
  Telegram accepts every call. The prices of the sample catalog have at most two
  decimals, so \<^verbatim>\<open>round(x, 2)\<close> returns them as they are.
\<close>

definition ex_env :: env where
  "ex_env = \<lparr>env_catalog = sample_catalog, env_uuid_hex = ''0123456789abcdef0123456789abcdef'',
             env_time = 1700000000, env_post = ex_gateway, env_round2 = (\<lambda>x. x),
             env_telegram = (\<lambda>r. True)\<rparr>"

definition down_env :: env where
  "down_env = ex_env\<lparr>env_post := down_gateway\<rparr>"


definition ex_cb :: "string \<Rightarrow> callback" where
  "ex_cb d = \<lparr>cb_chat = 7, cb_user = 7, cb_username = Some ''buyer'', cb_data = d\<rparr>"

definition ex_msg :: "string option \<Rightarrow> message" where
  "ex_msg t = \<lparr>m_chat = 7, m_user = 7, m_text = t, m_is_start = False\<rparr>"

text \<open>The session of buyer 7 once the nickname \<^verbatim>\<open>Player123\<close> has been taken.\<close>

definition ex_ctx :: fsm_ctx where
  "ex_ctx = \<lparr>fsm_state = Some choosing_asset,
             fsm_data = [(''game'', ''Genshin Impact''), (''package'', ''60 Genesis Crystals''),
                         (''nickname'', ''Player123'')]\<rparr>"

definition ex_world :: world where
  "ex_world = put_ctx (7, 7) ex_ctx init_world"

definition ex_order :: order where
  "ex_order =
     \<lparr>o_id = ''0123456789ab'', o_user_id = 7, o_username = Some ''buyer'',
      o_game = ''Genshin Impact'', o_package = ''60 Genesis Crystals'', o_price_usdt = 11 / 10,
      o_asset = ''USDT'', o_nickname = ''Player123'', o_created_at = 1700000000,
      o_status = ''pending'', o_invoice_id = 42, o_pay_url = JStr ''https://pay.example/42''\<rparr>"

text \<open>
  A whole flow of buyer 7 in one environment, from \<^verbatim>\<open>/start\<close> to the commit, with the text
  \<open>t\<close> sent as the nickname; and the flow followed by a \<^verbatim>\<open>check:\<close> callback that names its
  order and the payment request 99.
\<close>

definition flow_in :: "env \<Rightarrow> string \<Rightarrow> (env \<times> update) list" where
  "flow_in e t =
     [(e, Message ((ex_msg (Some ''/start''))\<lparr>m_is_start := True\<rparr>)),
      (e, CallbackQuery (ex_cb ''game:Genshin Impact'')),
      (e, CallbackQuery (ex_cb ''pkg:60 Genesis Crystals'')),
      (e, Message (ex_msg (Some t))),
      (e, CallbackQuery (ex_cb ''asset:USDT''))]"

definition flow_with :: "string \<Rightarrow> (env \<times> update) list" where
  "flow_with t = flow_in ex_env t"

definition ex_flow :: "(env \<times> update) list" where
  "ex_flow = flow_with ''Player123''"

definition ex_trace :: "(env \<times> update) list" where
  "ex_trace = ex_flow @ [(ex_env, CallbackQuery (ex_cb ''check:0123456789ab:99''))]"

text \<open>Buyer 7 earlier in the flow: a game chosen, and a game and a package chosen.\<close>

definition ex_pkg_world :: world where
  "ex_pkg_world =
     put_ctx (7, 7)
       \<lparr>fsm_state = Some choosing_package, fsm_data = [(''game'', ''Genshin Impact'')]\<rparr>
       init_world"

definition ex_nick_world :: world where
  "ex_nick_world =
     put_ctx (7, 7)
       \<lparr>fsm_state = Some entering_nickname,
        fsm_data = [(''game'', ''Genshin Impact''), (''package'', ''60 Genesis Crystals'')]\<rparr>
       init_world"

text \<open>
  Later the gateway reports invoice 42 as paid, and the buyer presses the button that
  \<open>pay_kb\<close> made for the order.
\<close>

definition settled_gateway :: network where
  "settled_gateway method payload =
     (if method = ''getInvoices'' \<and> payload = JObj [(''invoice_ids'', JArr [JInt 42])] then
        items_response [JObj [(''invoice_id'', JInt 42), (''status'', JStr ''paid'')]]
      else ex_gateway method payload)"

definition settled_env :: env where
  "settled_env = ex_env\<lparr>env_post := settled_gateway\<rparr>"

definition honest_trace :: "(env \<times> update) list" where
  "honest_trace = ex_flow @ [(settled_env, CallbackQuery (ex_cb ''check:0123456789ab:42''))]"

text \<open>The order of the flow once paid, and the catalog after a price change.\<close>

definition paid_rows :: "order list" where
  "paid_rows = [ex_order\<lparr>o_status := ''paid''\<rparr>]"

definition repriced_env :: env where
  "repriced_env = ex_env\<lparr>env_catalog :=
      [\<lparr>c_id = 1, c_game = ''Genshin Impact'', c_package = ''60 Genesis Crystals'',
        c_price_usdt = 11 / 5\<rparr>]\<rparr>"

text \<open>
  The bot sends with \<^verbatim>\<open>parse_mode=HTML\<close>, and Telegram refuses a text that is not
  well-formed HTML: here it refuses the order summary when the nickname formatted into
  it holds the character \<^verbatim>\<open><\<close>, and accepts every other call. In \<open>strict_env\<close> Telegram
  behaves so; \<open>second_env\<close> is a later moment, with another \<^verbatim>\<open>uuid4\<close>.
\<close>

fun html_telegram :: "reply \<Rightarrow> bool" where
  "html_telegram (EditText (TxtOrderSummary oid g pkg nick price asset) kb) =
     (CHR ''<'' \<notin> set nick)"
| "html_telegram r = True"

definition strict_env :: env where
  "strict_env = ex_env\<lparr>env_telegram := html_telegram\<rparr>"

definition second_env :: env where
  "second_env = strict_env\<lparr>env_uuid_hex := ''fedcba9876543210fedcba9876543210''\<rparr>"

text \<open>
  The flow of a buyer whose nickname is \<^verbatim>\<open><3\<close>, and the same flow followed by a second
  press of the asset button.
\<close>

definition heart_flow :: "(env \<times> update) list" where
  "heart_flow = flow_in strict_env ''<3''"

definition heart_trace :: "(env \<times> update) list" where
  "heart_trace = heart_flow @ [(second_env, CallbackQuery (ex_cb ''asset:USDT''))]"

text \<open>An order of another buyer, already in the table.\<close>

definition other_order :: order where
  "other_order =
     \<lparr>o_id = ''aaaaaaaaaaaa'', o_user_id = 8, o_username = None,
      o_game = ''World of Warcraft'', o_package = ''Gold 100k (EU)'', o_price_usdt = 7,
      o_asset = ''TON'', o_nickname = ''Thrall'', o_created_at = 1699990000,
      o_status = ''pending'', o_invoice_id = 41, o_pay_url = JStr ''https://pay.example/41''\<rparr>"

section \<open>Properties\<close>

subsection \<open>Strings\<close>

lemma startswith_Nil [simp]: "startswith s [] = True"
  by (simp add: startswith_def)

lemma startswith_Cons:
  "startswith s (a # p) = (case s of [] \<Rightarrow> False | c # cs \<Rightarrow> c = a \<and> startswith cs p)"
  by (cases s) (auto simp: startswith_def)

lemma startswith_append: "startswith d p \<Longrightarrow> \<exists>r. d = p @ r"
proof (induction p arbitrary: d)
  case Nil
  then show ?case by simp
next
  case (Cons a p)
  then show ?case by (cases d) (auto simp: startswith_Cons)
qed

text \<open>
  After a filter \<^verbatim>\<open>c.data.startswith("p:")\<close> the expression \<^verbatim>\<open>c.data.split(":", 1)[1]\<close>
  is the rest of the data and never raises.
\<close>

lemma split1_prefix:
  assumes "startswith d (p @ [sep])" and "sep \<notin> set p"
  shows "py_item1 (py_split1 sep d) = Inr (drop (length (p @ [sep])) d)"
proof -
  obtain r where d: "d = (p @ [sep]) @ r"
    using startswith_append [OF assms(1)] by blast
  have tw: "takeWhile (\<lambda>c. c \<noteq> sep) (p @ sep # r) = p"
    using assms(2) by (induction p) auto
  have dw: "dropWhile (\<lambda>c. c \<noteq> sep) (p @ sep # r) = sep # r"
    using assms(2) by (induction p) auto
  show ?thesis unfolding d py_split1_def py_item1_def
    by (simp add: tw dw)
qed

lemma asset_split:
  "startswith d ''asset:'' \<Longrightarrow>
   py_item1 (py_split1 CHR '':'' d) = Inr (drop (length ''asset:'') d)"
  using split1_prefix [of d "''asset''" "CHR '':''"] by simp

lemma not_other_prefix:
  "startswith d ''asset:'' \<Longrightarrow> \<not> startswith d ''game:''"
  "startswith d ''asset:'' \<Longrightarrow> \<not> startswith d ''pkg:''"
  "startswith d ''asset:'' \<Longrightarrow> \<not> startswith d ''check:''"
  by (auto simp: startswith_Cons split: list.splits)

subsection \<open>The orders table\<close>

lemma set_paid_idem: "set_paid oid (set_paid oid rows) = set_paid oid rows"
  by (induction rows) (simp_all add: set_paid_def)

lemma set_paid_already:
  "(\<forall>r \<in> set rows. o_id r = oid \<longrightarrow> o_status r = ''paid'') \<Longrightarrow> set_paid oid rows = rows"
  by (induction rows) (simp_all add: set_paid_def)

lemma put_ctx_same: "put_ctx k (storage w k) w = w"
  by (simp add: put_ctx_def)

subsection \<open>What the commit handler can return\<close>

text \<open>
  A normal return of \<open>choose_asset\<close> is one of three: the invoice-failure alert with
  nothing changed, the price-error alert with the session finished, or the commit: one
  row appended, with the session's game, package and nickname, the catalog's price and
  the status \<^verbatim>\<open>pending\<close>, and the reply whose keyboard \<open>pay_kb\<close> builds from the id and the
  invoice id of that row.
\<close>

lemma choose_asset_Inr:
  assumes "choose_asset e c ctx rows = Inr (ctx', rows', rs)"
  shows "(ctx' = ctx \<and> rows' = rows \<and> rs = [Alert TxtInvoiceFailed]) \<or>
         (ctx' = finish ctx \<and> rows' = rows \<and> rs = [Alert TxtPriceError]) \<or>
         (ctx' = finish ctx \<and>
          (\<exists>ord g pkg txt. rows' = rows @ [ord] \<and> o_status ord = ''pending'' \<and>
             o_id ord = take 12 (env_uuid_hex e) \<and>
             o_id ord \<notin> set (map o_id rows) \<and>
             dict_item (fsm_data ctx) ''game'' = Inr g \<and>
             dict_item (fsm_data ctx) ''package'' = Inr pkg \<and>
             o_game ord = g \<and> o_package ord = pkg \<and>
             dict_item (fsm_data ctx) ''nickname'' = Inr (o_nickname ord) \<and>
             select_price (env_catalog e) g pkg = Some (o_price_usdt ord) \<and>
             rs = [EditText txt (pay_kb (o_pay_url ord) (o_id ord) (o_invoice_id ord))]))"
  using assms unfolding choose_asset_def Let_def insert_order_def
  by (auto split: sum.splits option.splits if_splits)

text \<open>A raise of \<open>choose_asset\<close> leaves the session, and the table with at most one new row.\<close>

lemma choose_asset_Inl:
  assumes "choose_asset e c ctx rows = Inl (err, ctx', rows')"
  shows "ctx' = ctx \<and>
         (rows' = rows \<or> (\<exists>ord. rows' = rows @ [ord] \<and> o_status ord = ''pending''))"
  using assms unfolding choose_asset_def Let_def insert_order_def
  by (auto split: sum.splits option.splits if_splits)

subsection \<open>The gateway client never raises on creation\<close>

text \<open>
  \<open>create_invoice\<close> is a total function into \<open>json\<close>: a transport failure or a response
  that is not marked \<^verbatim>\<open>ok\<close> gives \<^verbatim>\<open>None\<close>.
\<close>

lemma create_invoice_failure:
  "post ''createInvoice''
     (JObj [(''asset'', JStr asset), (''amount'', JFloat (round2 amount)),
            (''description'', JStr description), (''payload'', JStr payload)]) = HttpRaised msg
   \<Longrightarrow> create_invoice post round2 asset amount description payload = JNull"
  by (simp add: create_invoice_def crypto_pay_def)

lemma create_invoice_not_ok:
  "\<not> fst (crypto_pay post ''createInvoice''
     (JObj [(''asset'', JStr asset), (''amount'', JFloat (round2 amount)),
            (''description'', JStr description), (''payload'', JStr payload)]))
   \<Longrightarrow> create_invoice post round2 asset amount description payload = JNull"
  by (auto simp: create_invoice_def split: prod.splits)

subsection \<open>Where a paid status can come from\<close>

text \<open>
  Whether \<open>check_payment\<close> returns or raises, the table it leaves is the one it found,
  or the one with the named order set to \<^verbatim>\<open>paid\<close> after the gateway reported \<^verbatim>\<open>"paid"\<close>.
\<close>

lemma check_payment_rows:
  assumes "check_payment e c rows = Inr (rows', rs) \<or> check_payment e c rows = Inl (err, rows')"
  shows "rows' = rows \<or>
         (\<exists>u oid s n invc. py_split CHR '':'' (cb_data c) = [u, oid, s] \<and> py_int_str s = Inr n \<and>
            get_invoice (env_post e) n = Inr invc \<and> truthy invc \<and>
            py_get invc ''status'' = Inr (JStr ''paid'') \<and> rows' = set_paid oid rows)"
  using assms unfolding check_payment_def
  by (auto split: list.splits sum.splits if_splits)

lemma set_paid_member:
  assumes "r \<in> set (set_paid oid rows)" and "o_status r = ''paid''"
  shows "(\<exists>r0 \<in> set rows. o_id r0 = o_id r \<and> o_status r0 = ''paid'') \<or> o_id r = oid"
  using assms by (auto simp: set_paid_def split: if_splits)

lemma process_message_orders: "orders (step (e, Message m) w) = orders w"
  by (auto simp: step_def process_message_def Let_def put_ctx_def
           split: if_splits sum.splits prod.splits)

lemma step_callback_paid:
  assumes "r \<in> set (orders (step (e, CallbackQuery c) w))" and "o_status r = ''paid''"
  shows "(\<exists>r0 \<in> set (orders w). o_id r0 = o_id r \<and> o_status r0 = ''paid'')
         \<or> (\<exists>n. paid_check (e, CallbackQuery c) w = Some (o_id r, n))"
proof -
  let ?ctx = "storage w (cb_chat c, cb_user c)"
  let ?w' = "step (e, CallbackQuery c) w"
  consider (game) "startswith (cb_data c) ''game:''"
    | (pkg) "\<not> startswith (cb_data c) ''game:''"
        "startswith (cb_data c) ''pkg:'' \<and> fsm_state ?ctx = Some choosing_package"
    | (asset) "\<not> startswith (cb_data c) ''game:''"
        "\<not> (startswith (cb_data c) ''pkg:'' \<and> fsm_state ?ctx = Some choosing_package)"
        "startswith (cb_data c) ''asset:'' \<and> fsm_state ?ctx = Some choosing_asset"
    | (check) "\<not> startswith (cb_data c) ''game:''"
        "\<not> (startswith (cb_data c) ''pkg:'' \<and> fsm_state ?ctx = Some choosing_package)"
        "\<not> (startswith (cb_data c) ''asset:'' \<and> fsm_state ?ctx = Some choosing_asset)"
        "startswith (cb_data c) ''check:'' \<and> fsm_state ?ctx = None"
    | (none) "\<not> startswith (cb_data c) ''game:''"
        "\<not> (startswith (cb_data c) ''pkg:'' \<and> fsm_state ?ctx = Some choosing_package)"
        "\<not> (startswith (cb_data c) ''asset:'' \<and> fsm_state ?ctx = Some choosing_asset)"
        "\<not> (startswith (cb_data c) ''check:'' \<and> fsm_state ?ctx = None)"
    by blast
  then show ?thesis
  proof cases
    case game
    then have "orders ?w' = orders w"
      by (auto simp: step_def process_callback_def Let_def put_ctx_def split: sum.splits)
    then show ?thesis using assms by auto
  next
    case pkg
    then have "orders ?w' = orders w"
      by (auto simp: step_def process_callback_def Let_def put_ctx_def split: sum.splits)
    then show ?thesis using assms by auto
  next
    case asset
    have "orders ?w' = orders w \<or> (\<exists>ord. orders ?w' = orders w @ [ord] \<and> o_status ord = ''pending'')"
    proof (cases "choose_asset e c ?ctx (orders w)")
      case (Inl a)
      obtain err ctx' rows' where a: "a = (err, ctx', rows')" by (cases a)
      have "orders ?w' = rows'"
        using asset Inl a by (simp add: step_def process_callback_def Let_def)
      then show ?thesis using choose_asset_Inl [OF Inl [unfolded a]] by auto
    next
      case (Inr b)
      obtain ctx' rows' rs where b: "b = (ctx', rows', rs)" by (cases b)
      have "orders ?w' = rows'"
        using asset Inr b by (simp add: step_def process_callback_def Let_def)
      then show ?thesis using choose_asset_Inr [OF Inr [unfolded b]] by auto
    qed
    then have "r \<in> set (orders w)" using assms by auto
    then show ?thesis using assms(2) by auto
  next
    case check
    obtain rows' where o: "orders ?w' = rows'"
      and cp: "(\<exists>rs. check_payment e c (orders w) = Inr (rows', rs))
               \<or> (\<exists>err. check_payment e c (orders w) = Inl (err, rows'))"
      using check
      by (cases "check_payment e c (orders w)")
         (auto simp: step_def process_callback_def Let_def)
    then obtain rs err where
      "check_payment e c (orders w) = Inr (rows', rs) \<or> check_payment e c (orders w) = Inl (err, rows')"
      by blast
    from check_payment_rows [OF this] show ?thesis
    proof
      assume "rows' = orders w"
      then show ?thesis using assms o by auto
    next
      assume "\<exists>u oid s n invc. py_split CHR '':'' (cb_data c) = [u, oid, s] \<and> py_int_str s = Inr n \<and>
            get_invoice (env_post e) n = Inr invc \<and> truthy invc \<and>
            py_get invc ''status'' = Inr (JStr ''paid'') \<and> rows' = set_paid oid (orders w)"
      then obtain u oid s n invc where
        sp: "py_split CHR '':'' (cb_data c) = [u, oid, s]" and pi: "py_int_str s = Inr n"
        and gi: "get_invoice (env_post e) n = Inr invc" and tr: "truthy invc"
        and st: "py_get invc ''status'' = Inr (JStr ''paid'')"
        and rows': "rows' = set_paid oid (orders w)"
        by blast
      have pc: "paid_check (e, CallbackQuery c) w = Some (oid, n)"
        using check(4) sp pi gi tr st by (simp add: paid_check_def)
      from set_paid_member [of r oid "orders w"] assms o rows'
      show ?thesis using pc by auto
    qed
  next
    case none
    then have "?w' = w"
      by (auto simp: step_def process_callback_def Let_def split: if_splits)
    then show ?thesis using assms by auto
  qed
qed

lemma step_paid:
  assumes "r \<in> set (orders (step eu w))" and "o_status r = ''paid''"
  shows "(\<exists>r0 \<in> set (orders w). o_id r0 = o_id r \<and> o_status r0 = ''paid'')
         \<or> (\<exists>n. paid_check eu w = Some (o_id r, n))"
proof -
  obtain e u where eu: "eu = (e, u)" by (cases eu)
  show ?thesis
  proof (cases u)
    case (Message m)
    then show ?thesis using assms eu process_message_orders [of e m w] by auto
  next
    case (CallbackQuery c)
    then show ?thesis using assms eu step_callback_paid [of r e c w] by simp
  qed
qed

lemma run_paid:
  assumes "r \<in> set (orders (run trace w))" and "o_status r = ''paid''"
  shows "(\<exists>r0 \<in> set (orders w). o_id r0 = o_id r \<and> o_status r0 = ''paid'')
         \<or> (\<exists>n. (o_id r, n) \<in> set (paid_checks trace w))"
  using assms
proof (induction trace arbitrary: w r)
  case Nil
  then show ?case by auto
next
  case (Cons eu trace)
  from Cons.prems have "r \<in> set (orders (run trace (step eu w)))" by simp
  from Cons.IH [OF this Cons.prems(2)] show ?case
  proof
    assume "\<exists>r0 \<in> set (orders (step eu w)). o_id r0 = o_id r \<and> o_status r0 = ''paid''"
    then obtain r0 where r0: "r0 \<in> set (orders (step eu w))" "o_id r0 = o_id r" "o_status r0 = ''paid''"
      by blast
    from step_paid [OF r0(1) r0(3)] r0(2) show ?thesis
      by (auto split: option.splits)
  next
    assume "\<exists>n. (o_id r, n) \<in> set (paid_checks trace (step eu w))"
    then show ?thesis by (auto split: option.splits)
  qed
qed

subsection \<open>The callback data of the pay keyboard reads back\<close>

lemma py_split_no_sep: "sep \<notin> set s \<Longrightarrow> py_split sep s = [s]"
  by (induction s) auto

lemma py_split_append:
  "sep \<notin> set a \<Longrightarrow> py_split sep (a @ sep # rest) = a # py_split sep rest"
  by (induction a) (auto split: list.splits)

lemma isdigit_digit_char: "d < 10 \<Longrightarrow> isdigit (digit_char d)"
  by (simp add: isdigit_def digit_char_def)

lemma digit_val_digit_char: "d < 10 \<Longrightarrow> digit_val (digit_char d) = d"
  by (simp add: digit_val_def digit_char_def)

lemma str_nat_digits: "str_nat n \<noteq> [] \<and> (\<forall>c \<in> set (str_nat n). isdigit c)"
proof (induction n rule: str_nat.induct)
  case (1 n)
  show ?case
  proof (cases "n < 10")
    case True
    then show ?thesis by (subst str_nat.simps, subst (2) str_nat.simps) (simp add: isdigit_digit_char)
  next
    case False
    with 1 show ?thesis
      by (subst str_nat.simps, subst (2) str_nat.simps) (simp add: isdigit_digit_char)
  qed
qed

lemma isdigit_not_special:
  assumes "isdigit c"
  shows "\<not> int_isspace c" "c \<noteq> CHR ''_''" "c \<noteq> CHR '':''" "c \<noteq> CHR ''-''" "c \<noteq> CHR ''+''"
  using assms by (auto simp: isdigit_def int_isspace_def Let_def)

lemma digits_val_digits:
  "ds \<noteq> [] \<Longrightarrow> \<forall>c \<in> set ds. isdigit c \<Longrightarrow>
   digits_val acc ds = Some (foldl (\<lambda>a c. a * 10 + digit_val c) acc ds)"
proof (induction acc ds rule: digits_val.induct)
  case (1 acc)
  then show ?case by simp
next
  case (2 acc c)
  then show ?case by simp
next
  case (3 acc c d cs)
  then have "d \<noteq> CHR ''_''" using isdigit_not_special(2) [of d] by auto
  with 3 show ?case by simp
qed

lemma foldl_str_nat: "foldl (\<lambda>a c. a * 10 + digit_val c) 0 (str_nat n) = n"
proof (induction n rule: str_nat.induct)
  case (1 n)
  show ?case
  proof (cases "n < 10")
    case True
    then show ?thesis by (subst str_nat.simps) (simp add: digit_val_digit_char)
  next
    case False
    with 1 show ?thesis by (subst str_nat.simps) (simp add: digit_val_digit_char)
  qed
qed

lemma int_strip_no_space: "\<forall>c \<in> set s. \<not> int_isspace c \<Longrightarrow> int_strip s = s"
proof -
  have dw: "dropWhile int_isspace t = t" if "\<forall>c \<in> set t. \<not> int_isspace c" for t
    using that by (cases t) auto
  assume a: "\<forall>c \<in> set s. \<not> int_isspace c"
  then have "dropWhile int_isspace s = s" by (rule dw)
  moreover have "dropWhile int_isspace (rev s) = rev s" using a by (intro dw) simp
  ultimately show ?thesis by (simp add: int_strip_def)
qed

lemma py_int_str_nat: "py_int_str (str_nat n) = Inr (int n)"
proof -
  from str_nat_digits [of n] obtain c cs where s: "str_nat n = c # cs"
    and d: "\<forall>x \<in> set (c # cs). isdigit x"
    by (cases "str_nat n") auto
  have st: "int_strip (c # cs) = c # cs"
    using d isdigit_not_special(1) by (intro int_strip_no_space) blast
  have c: "c \<noteq> CHR ''-''" "c \<noteq> CHR ''+''"
    using d isdigit_not_special(4,5) [of c] by auto
  have "digits_val 0 (c # cs) = Some n"
    using digits_val_digits [of "c # cs" 0] d foldl_str_nat [of n] s by simp
  then show ?thesis unfolding s py_int_str_def st using c by simp
qed

lemma py_int_str_int: "py_int_str (str_int i) = Inr i"
proof (cases "i < 0")
  case False
  then show ?thesis using py_int_str_nat [of "nat i"] by (simp add: str_int_def)
next
  case True
  let ?ds = "str_nat (nat (- i))"
  have d: "\<forall>x \<in> set ?ds. isdigit x" and ne: "?ds \<noteq> []"
    using str_nat_digits [of "nat (- i)"] by auto
  have sp: "\<not> int_isspace CHR ''-''" by (simp add: int_isspace_def)
  have st: "int_strip (CHR ''-'' # ?ds) = CHR ''-'' # ?ds"
    using d sp isdigit_not_special(1) by (intro int_strip_no_space) auto
  have "digits_val 0 ?ds = Some (nat (- i))"
    using digits_val_digits [OF ne d, of 0] foldl_str_nat [of "nat (- i)"] by simp
  then show ?thesis using True unfolding str_int_def py_int_str_def
    by (simp add: st)
qed

lemma str_int_no_colon: "CHR '':'' \<notin> set (str_int i)"
  using str_nat_digits [of "nat i"] str_nat_digits [of "nat (- i)"] isdigit_not_special(3)
  by (auto simp: str_int_def)

lemma pay_kb_data_split:
  assumes "CHR '':'' \<notin> set oid"
  shows "py_split CHR '':'' (''check:'' @ oid @ '':'' @ str_int m) = [''check'', oid, str_int m]"
proof -
  have "py_split CHR '':'' (''check'' @ CHR '':'' # (oid @ CHR '':'' # str_int m))
          = ''check'' # py_split CHR '':'' (oid @ CHR '':'' # str_int m)"
    by (rule py_split_append) simp
  also have "py_split CHR '':'' (oid @ CHR '':'' # str_int m) = oid # py_split CHR '':'' (str_int m)"
    using assms by (rule py_split_append)
  also have "py_split CHR '':'' (str_int m) = [str_int m]"
    using str_int_no_colon by (rule py_split_no_sep)
  finally show ?thesis by simp
qed

text \<open>
  What \<open>paid_check\<close> reads from the data of the button that \<open>pay_kb\<close> builds for an order id
  and an invoice id is that pair.
\<close>

lemma paid_check_pay_kb:
  assumes "CHR '':'' \<notin> set oid"
      and "CallbackButton (cb_data c) \<in> set (pay_kb url oid m)"
      and "paid_check (e, CallbackQuery c) w = Some p"
  shows "p = (oid, m)"
proof -
  have d: "cb_data c = ''check:'' @ oid @ '':'' @ str_int m"
    using assms(2) by (simp add: pay_kb_def)
  show ?thesis
    using assms(3) pay_kb_data_split [OF assms(1), of m] py_int_str_int [of m]
    by (auto simp: paid_check_def d split: if_splits sum.splits)
qed

text \<open>
  The button of a commit: the keyboard that \<open>choose_asset\<close> sends with the order summary
  carries the id and the recorded invoice id of the row it has inserted.
\<close>

lemma commit_button_reads_recorded_invoice:
  assumes "choose_asset e c ctx rows = Inr (ctx', rows', rs)" and "rows' \<noteq> rows"
      and "CHR '':'' \<notin> set (take 12 (env_uuid_hex e))"
      and "EditText txt kb \<in> set rs" and "CallbackButton (cb_data c') \<in> set kb"
      and "paid_check (e', CallbackQuery c') w = Some p"
  shows "p = (o_id (last rows'), o_invoice_id (last rows'))"
proof -
  from choose_asset_Inr [OF assms(1)] assms(2) have
    "\<exists>ord txt'. rows' = rows @ [ord] \<and> o_id ord = take 12 (env_uuid_hex e) \<and>
       rs = [EditText txt' (pay_kb (o_pay_url ord) (o_id ord) (o_invoice_id ord))]"
    by blast
  then obtain ord txt' where
    rows': "rows' = rows @ [ord]" and oid: "o_id ord = take 12 (env_uuid_hex e)"
    and rs: "rs = [EditText txt' (pay_kb (o_pay_url ord) (o_id ord) (o_invoice_id ord))]"
    by blast
  have kb: "kb = pay_kb (o_pay_url ord) (o_id ord) (o_invoice_id ord)"
    using assms(4) rs by simp
  have "p = (o_id ord, o_invoice_id ord)"
    using paid_check_pay_kb [of "o_id ord" c' "o_pay_url ord" "o_invoice_id ord" e' w p]
      assms(3,5,6) oid kb by simp
  then show ?thesis using rows' by simp
qed

section \<open>Payment reconciliation\<close>

text \<open>
  C1. Claimed: when the gateway returns a record whose status is neither \<^verbatim>\<open>"paid"\<close> nor
  \<^verbatim>\<open>"active"\<close>, reconciliation sets the persisted order's status to \<^verbatim>\<open>invalid\<close>, and never
  to \<^verbatim>\<open>paid\<close>. The code writes nothing in that branch. What holds: for every such
  invocation \<open>check_payment\<close> leaves the \<^verbatim>\<open>orders\<close> table exactly as it was (so no status
  becomes \<^verbatim>\<open>paid\<close>, and none becomes \<^verbatim>\<open>invalid\<close>) and replaces the message by the
  invoice-invalid text; when Telegram refuses that edit, the table is unchanged all the
  same.
\<close>

theorem check_payment_other_status:
  assumes "py_split CHR '':'' (cb_data c) = [u, order_id, invoice_id]"
      and "py_int_str invoice_id = Inr n"
      and "get_invoice (env_post e) n = Inr invc" and "truthy invc"
      and "py_get invc ''status'' = Inr status"
      and "status \<noteq> JStr ''paid''" and "status \<noteq> JStr ''active''"
  shows "check_payment e c rows =
           (if env_telegram e (EditText TxtInvoiceInvalid [])
            then Inr (rows, [EditText TxtInvoiceInvalid []])
            else Inl (TelegramAPIError, rows))"
  using assms by (simp add: check_payment_def)

theorem check_payment_other_status_witness:
  "py_split CHR '':'' (cb_data (ex_cb ''check:0123456789ab:42'')) = [''check'', ''0123456789ab'', ''42'']
   \<and> py_int_str ''42'' = Inr 42
   \<and> get_invoice (env_post ex_env) 42 = Inr (JObj [(''invoice_id'', JInt 42), (''status'', JStr ''expired'')])
   \<and> check_payment ex_env (ex_cb ''check:0123456789ab:42'') [ex_order]
       = Inr ([ex_order], [EditText TxtInvoiceInvalid []])"
proof -
  let ?invc = "JObj [(''invoice_id'', JInt 42), (''status'', JStr ''expired'')]"
  have h1: "py_split CHR '':'' (cb_data (ex_cb ''check:0123456789ab:42''))
              = [''check'', ''0123456789ab'', ''42'']"
    by code_simp
  have h2: "py_int_str ''42'' = Inr 42" by code_simp
  have h3: "get_invoice (env_post ex_env) 42 = Inr ?invc" by code_simp
  have h4: "truthy ?invc" by simp
  have h5: "py_get ?invc ''status'' = Inr (JStr ''expired'')" by code_simp
  have h6: "JStr ''expired'' \<noteq> JStr ''paid''" "JStr ''expired'' \<noteq> JStr ''active''" by simp_all
  have t: "env_telegram ex_env (EditText TxtInvoiceInvalid [])" by (simp add: ex_env_def)
  from check_payment_other_status [OF h1 h2 h3 h4 h5 h6, of "[ex_order]"] h1 h2 h3 t
  show ?thesis by simp
qed

text \<open>
  The claim fails at an expired invoice: the order of the flow is \<^verbatim>\<open>pending\<close> before and
  after the check, not \<^verbatim>\<open>invalid\<close>.
\<close>

theorem check_payment_expired_counterexample:
  "check_payment ex_env (ex_cb ''check:0123456789ab:42'') [ex_order]
     = Inr ([ex_order], [EditText TxtInvoiceInvalid []])
   \<and> o_id ex_order = ''0123456789ab'' \<and> o_invoice_id ex_order = 42
   \<and> o_status ex_order = ''pending'' \<and> o_status ex_order \<noteq> ''invalid''
   \<and> get_invoice (env_post ex_env) 42
       = Inr (JObj [(''invoice_id'', JInt 42), (''status'', JStr ''expired'')])"
  by code_simp

text \<open>
  C8. Reconciliation of a paid order is idempotent: when the order named by the callback
  is already \<^verbatim>\<open>paid\<close> and the gateway reports \<^verbatim>\<open>"paid"\<close> at both invocations, each of the
  two invocations leaves the table as it is (the order stays \<^verbatim>\<open>paid\<close>) and, Telegram
  accepting the edit, gives the same success reply.
\<close>

theorem check_payment_paid_twice:
  assumes "py_split CHR '':'' (cb_data c) = [u, order_id, invoice_id]"
      and "py_int_str invoice_id = Inr n"
      and "get_invoice (env_post e1) n = Inr i1" and "truthy i1"
      and "py_get i1 ''status'' = Inr (JStr ''paid'')"
      and "get_invoice (env_post e2) n = Inr i2" and "truthy i2"
      and "py_get i2 ''status'' = Inr (JStr ''paid'')"
      and "\<forall>r \<in> set rows. o_id r = order_id \<longrightarrow> o_status r = ''paid''"
  shows "check_payment e1 c rows =
           (if env_telegram e1 (EditText (TxtPaid order_id) [])
            then Inr (rows, [EditText (TxtPaid order_id) []])
            else Inl (TelegramAPIError, rows))
         \<and> check_payment e2 c rows =
           (if env_telegram e2 (EditText (TxtPaid order_id) [])
            then Inr (rows, [EditText (TxtPaid order_id) []])
            else Inl (TelegramAPIError, rows))"
  using assms set_paid_already [of rows order_id] by (simp add: check_payment_def)

theorem check_payment_paid_twice_witness:
  "get_invoice (env_post ex_env) 99 = Inr (JObj [(''invoice_id'', JInt 99), (''status'', JStr ''paid'')])
   \<and> map o_status paid_rows = [''paid'']
   \<and> check_payment ex_env (ex_cb ''check:0123456789ab:99'') paid_rows
        = Inr (paid_rows, [EditText (TxtPaid ''0123456789ab'') []])"
proof -
  let ?invc = "JObj [(''invoice_id'', JInt 99), (''status'', JStr ''paid'')]"
  have h1: "py_split CHR '':'' (cb_data (ex_cb ''check:0123456789ab:99''))
              = [''check'', ''0123456789ab'', ''99'']" by code_simp
  have h2: "py_int_str ''99'' = Inr 99" by code_simp
  have h3: "get_invoice (env_post ex_env) 99 = Inr ?invc" by code_simp
  have h4: "truthy ?invc" by simp
  have h5: "py_get ?invc ''status'' = Inr (JStr ''paid'')" by code_simp
  have h6: "\<forall>r \<in> set paid_rows. o_id r = ''0123456789ab'' \<longrightarrow> o_status r = ''paid''"
    by (simp add: paid_rows_def)
  have h7: "map o_status paid_rows = [''paid'']" by (simp add: paid_rows_def)
  have t: "env_telegram ex_env (EditText (TxtPaid ''0123456789ab'') [])" by (simp add: ex_env_def)
  from check_payment_paid_twice [OF h1 h2 h3 h4 h5 h3 h4 h5 h6] h3 h7 t
  show ?thesis by simp
qed

text \<open>
  C2. Claimed: in every reachable state, an order with status \<^verbatim>\<open>paid\<close> got it from a
  reconciliation step that saw the gateway report \<^verbatim>\<open>"paid"\<close> for the order's own recorded
  \<^verbatim>\<open>invoice_id\<close>. \<open>check_payment\<close> takes both the order id and the payment request id from
  the callback data and never reads the order, so what holds is this. In every state
  reached from the empty tables, an order with status \<^verbatim>\<open>paid\<close> was named by a callback of
  the run that the dispatcher gave to \<open>check_payment\<close> and at which the gateway reported
  \<^verbatim>\<open>"paid"\<close> for the payment request id of that callback (orders are inserted \<^verbatim>\<open>pending\<close>,
  and nothing else writes \<^verbatim>\<open>paid\<close>). The keyboard that a commit sends is \<open>pay_kb\<close> of the id
  and the recorded \<^verbatim>\<open>invoice_id\<close> of the row just inserted; and what a reconciliation step
  reads from the data of a button of that keyboard is that row's id with that row's
  recorded \<^verbatim>\<open>invoice_id\<close> (the order id, a prefix of \<^verbatim>\<open>uuid4().hex\<close>, holding no colon).
\<close>

theorem paid_only_after_paid_check:
  "(\<forall>r \<in> set (orders (run trace init_world)).
      o_status r = ''paid'' \<longrightarrow> (\<exists>n. (o_id r, n) \<in> set (paid_checks trace init_world)))
   \<and> (\<forall>e c ctx rows ctx' rows' rs.
        choose_asset e c ctx rows = Inr (ctx', rows', rs) \<and> rows' \<noteq> rows
        \<longrightarrow> (\<exists>txt. rs = [EditText txt (pay_kb (o_pay_url (last rows')) (o_id (last rows'))
                                      (o_invoice_id (last rows')))]))
   \<and> (\<forall>e c ctx rows ctx' rows' rs txt kb e' c' w p.
        choose_asset e c ctx rows = Inr (ctx', rows', rs) \<and> rows' \<noteq> rows
          \<and> CHR '':'' \<notin> set (take 12 (env_uuid_hex e))
          \<and> EditText txt kb \<in> set rs \<and> CallbackButton (cb_data c') \<in> set kb
          \<and> paid_check (e', CallbackQuery c') w = Some p
        \<longrightarrow> p = (o_id (last rows'), o_invoice_id (last rows')))"
proof (intro conjI ballI impI allI)
  fix r assume "r \<in> set (orders (run trace init_world))" and "o_status r = ''paid''"
  from run_paid [OF this] show "\<exists>n. (o_id r, n) \<in> set (paid_checks trace init_world)"
    by (simp add: init_world_def)
next
  fix e c ctx rows ctx' rows' rs
  assume a: "choose_asset e c ctx rows = Inr (ctx', rows', rs) \<and> rows' \<noteq> rows"
  then have "\<exists>ord txt. rows' = rows @ [ord] \<and>
      rs = [EditText txt (pay_kb (o_pay_url ord) (o_id ord) (o_invoice_id ord))]"
    using choose_asset_Inr [of e c ctx rows ctx' rows' rs] by blast
  then show "\<exists>txt. rs = [EditText txt (pay_kb (o_pay_url (last rows')) (o_id (last rows'))
                                      (o_invoice_id (last rows')))]"
    by auto
next
  fix e c ctx rows ctx' rows' rs tx kb e' c' w p
  assume "choose_asset e c ctx rows = Inr (ctx', rows', rs) \<and> rows' \<noteq> rows
          \<and> CHR '':'' \<notin> set (take 12 (env_uuid_hex e))
          \<and> EditText tx kb \<in> set rs \<and> CallbackButton (cb_data c') \<in> set kb
          \<and> paid_check (e', CallbackQuery c') w = Some p"
  then show "p = (o_id (last rows'), o_invoice_id (last rows'))"
    using commit_button_reads_recorded_invoice by blast
qed

theorem paid_only_after_paid_check_witness:
  "orders (run honest_trace init_world) = paid_rows
   \<and> paid_checks honest_trace init_world = [(''0123456789ab'', 42)]
   \<and> (\<exists>n. (''0123456789ab'', n) \<in> set (paid_checks honest_trace init_world))
   \<and> choose_asset ex_env (ex_cb ''asset:USDT'') ex_ctx [other_order]
       = Inr (finish ex_ctx, [other_order, ex_order],
              [EditText (TxtOrderSummary ''0123456789ab'' ''Genshin Impact''
                           ''60 Genesis Crystals'' ''Player123'' (11 / 10) ''USDT'')
                 [UrlButton (JStr ''https://pay.example/42''),
                  CallbackButton ''check:0123456789ab:42'']])
   \<and> paid_check (settled_env, CallbackQuery (ex_cb ''check:0123456789ab:42'')) init_world
       = Some (o_id ex_order, o_invoice_id ex_order)"
proof -
  let ?r = "ex_order\<lparr>o_status := ''paid''\<rparr>"
  let ?c = "ex_cb ''check:0123456789ab:42''"
  let ?txt = "TxtOrderSummary ''0123456789ab'' ''Genshin Impact''
                ''60 Genesis Crystals'' ''Player123'' (11 / 10) ''USDT''"
  let ?kb = "[UrlButton (JStr ''https://pay.example/42''), CallbackButton ''check:0123456789ab:42'']"
  have h1: "orders (run honest_trace init_world) = paid_rows" by code_simp
  have h2: "?r \<in> set (orders (run honest_trace init_world))"
    unfolding h1 by (simp add: paid_rows_def)
  have h3: "o_status ?r = ''paid''" by simp
  have h4: "o_id ?r = ''0123456789ab''" by (simp add: ex_order_def)
  have h5: "paid_checks honest_trace init_world = [(''0123456789ab'', 42)]" by code_simp
  have h6: "choose_asset ex_env (ex_cb ''asset:USDT'') ex_ctx [other_order]
       = Inr (finish ex_ctx, [other_order, ex_order], [EditText ?txt ?kb])"
    by code_simp
  have h7: "paid_check (settled_env, CallbackQuery ?c) init_world = Some (''0123456789ab'', 42)"
    by code_simp
  have h8: "CHR '':'' \<notin> set (take 12 (env_uuid_hex ex_env))" by code_simp
  have h9: "[other_order, ex_order] \<noteq> [other_order]" by simp
  have h10: "EditText ?txt ?kb \<in> set [EditText ?txt ?kb]" by simp
  have h11: "CallbackButton (cb_data ?c) \<in> set ?kb" by (simp add: ex_cb_def)
  note t = paid_only_after_paid_check [of honest_trace]
  from t h2 h3 h4 have a: "\<exists>n. (''0123456789ab'', n) \<in> set (paid_checks honest_trace init_world)"
    by fastforce
  from t have "choose_asset ex_env (ex_cb ''asset:USDT'') ex_ctx [other_order]
                 = Inr (finish ex_ctx, [other_order, ex_order], [EditText ?txt ?kb])
        \<and> [other_order, ex_order] \<noteq> [other_order]
        \<and> CHR '':'' \<notin> set (take 12 (env_uuid_hex ex_env))
        \<and> EditText ?txt ?kb \<in> set [EditText ?txt ?kb] \<and> CallbackButton (cb_data ?c) \<in> set ?kb
        \<and> paid_check (settled_env, CallbackQuery ?c) init_world = Some (''0123456789ab'', 42)
      \<longrightarrow> (''0123456789ab'', 42) = (o_id (last [other_order, ex_order]),
                                      o_invoice_id (last [other_order, ex_order]))"
    by blast
  with h6 h7 h8 h9 h10 h11 have b: "(''0123456789ab'', 42 :: int) = (o_id ex_order, o_invoice_id ex_order)"
    by simp
  from a b h1 h5 h6 h7 show ?thesis by simp
qed

text \<open>
  The claim fails on a run in which the order of the flow, whose recorded invoice is
  42, is named by a \<^verbatim>\<open>check:\<close> callback that carries the payment request 99: the gateway
  reports 99 as paid, the order becomes \<^verbatim>\<open>paid\<close>, and the only paid report of the run is
  the one for 99.
\<close>

theorem paid_for_other_invoice_counterexample:
  "orders (run ex_trace init_world) = paid_rows
   \<and> map o_id paid_rows = [''0123456789ab'']
   \<and> map o_status paid_rows = [''paid'']
   \<and> map o_invoice_id paid_rows = [42]
   \<and> paid_checks ex_trace init_world = [(''0123456789ab'', 99)]"
  by code_simp

section \<open>Properties of the order flow\<close>

text \<open>
  C3. At a commit (session with game, package and nickname recorded) whose pair
  resolves in the catalog the handler reads, and for which the gateway returns an
  invoice with an integer id, \<open>choose_asset\<close> appends exactly one row to the \<^verbatim>\<open>orders\<close>
  table, and the price of that row is the price \<open>select_price\<close> finds in that catalog:
  the session holds no price at all. The row is there whether or not Telegram then
  accepts the summary.
\<close>

theorem commit_takes_price_at_commit:
  assumes "startswith (cb_data c) ''asset:''"
      and "dict_item (fsm_data ctx) ''game'' = Inr g"
      and "dict_item (fsm_data ctx) ''package'' = Inr pkg"
      and "dict_item (fsm_data ctx) ''nickname'' = Inr nick"
      and "select_price (env_catalog e) g pkg = Some price"
      and "create_invoice (env_post e) (env_round2 e) (drop (length ''asset:'') (cb_data c)) price
             (g @ '' - '' @ pkg @ '' (nick: '' @ nick @ '')'') (take 12 (env_uuid_hex e)) = JObj kvs"
      and "kvs \<noteq> []"
      and "py_int (dict_get kvs ''invoice_id'') = Inr n"
      and "sql_int (cb_user c)" and "sql_int (env_time e)" and "sql_int n"
      and "sql_bindable (dict_get kvs ''pay_url'')"
      and "take 12 (env_uuid_hex e) \<notin> set (map o_id rows)"
  shows "choose_asset e c ctx rows =
           (if env_telegram e
                 (EditText (TxtOrderSummary (take 12 (env_uuid_hex e)) g pkg nick price
                              (drop (length ''asset:'') (cb_data c)))
                    (pay_kb (dict_get kvs ''pay_url'') (take 12 (env_uuid_hex e)) n))
            then Inr (finish ctx,
                      rows @ [\<lparr>o_id = take 12 (env_uuid_hex e), o_user_id = cb_user c,
                               o_username = cb_username c, o_game = g, o_package = pkg,
                               o_price_usdt = price,
                               o_asset = drop (length ''asset:'') (cb_data c),
                               o_nickname = nick, o_created_at = env_time e,
                               o_status = ''pending'', o_invoice_id = n,
                               o_pay_url = dict_get kvs ''pay_url''\<rparr>],
                      [EditText (TxtOrderSummary (take 12 (env_uuid_hex e)) g pkg nick price
                                   (drop (length ''asset:'') (cb_data c)))
                         (pay_kb (dict_get kvs ''pay_url'') (take 12 (env_uuid_hex e)) n)])
            else Inl (TelegramAPIError, ctx,
                      rows @ [\<lparr>o_id = take 12 (env_uuid_hex e), o_user_id = cb_user c,
                               o_username = cb_username c, o_game = g, o_package = pkg,
                               o_price_usdt = price,
                               o_asset = drop (length ''asset:'') (cb_data c),
                               o_nickname = nick, o_created_at = env_time e,
                               o_status = ''pending'', o_invoice_id = n,
                               o_pay_url = dict_get kvs ''pay_url''\<rparr>]))"
proof -
  have a: "py_item1 (py_split1 CHR '':'' (cb_data c)) = Inr (drop (length ''asset:'') (cb_data c))"
    using asset_split [OF assms(1)] .
  have t: "truthy (JObj kvs)" using assms(7) by simp
  have p: "py_get (JObj kvs) ''pay_url'' = Inr (dict_get kvs ''pay_url'')"
          "py_get (JObj kvs) ''invoice_id'' = Inr (dict_get kvs ''invoice_id'')"
    by (simp_all add: py_get_def dict_get_def)
  show ?thesis
    unfolding choose_asset_def a
    using assms(2-6,8-13) t p
    by (simp add: Let_def insert_order_def)
qed

text \<open>
  The session was built while the catalog priced the package at 1.1; the commit runs
  on a catalog that prices it at 2.2, with another order already in the table, and the
  new order carries 2.2.
\<close>

theorem commit_takes_price_at_commit_witness:
  "storage (run (butlast ex_flow) init_world) (7, 7) = ex_ctx
   \<and> select_price (env_catalog ex_env) ''Genshin Impact'' ''60 Genesis Crystals'' = Some (11 / 10)
   \<and> select_price (env_catalog repriced_env) ''Genshin Impact'' ''60 Genesis Crystals'' = Some (11 / 5)
   \<and> choose_asset repriced_env (ex_cb ''asset:USDT'') ex_ctx [other_order]
        = Inr (finish ex_ctx, [other_order, ex_order\<lparr>o_price_usdt := 11 / 5\<rparr>],
               [EditText (TxtOrderSummary ''0123456789ab'' ''Genshin Impact''
                            ''60 Genesis Crystals'' ''Player123'' (11 / 5) ''USDT'')
                  (pay_kb (JStr ''https://pay.example/42'') ''0123456789ab'' 42)])"
proof -
  let ?c = "ex_cb ''asset:USDT''"
  let ?kvs = "[(''invoice_id'', JInt 42), (''pay_url'', JStr ''https://pay.example/42''),
               (''status'', JStr ''active'')]"
  have h0: "storage (run (butlast ex_flow) init_world) (7, 7) = ex_ctx" by code_simp
  have h1: "startswith (cb_data ?c) ''asset:''" by code_simp
  have h2: "dict_item (fsm_data ex_ctx) ''game'' = Inr ''Genshin Impact''" by code_simp
  have h3: "dict_item (fsm_data ex_ctx) ''package'' = Inr ''60 Genesis Crystals''" by code_simp
  have h4: "dict_item (fsm_data ex_ctx) ''nickname'' = Inr ''Player123''" by code_simp
  have h5: "select_price (env_catalog repriced_env) ''Genshin Impact'' ''60 Genesis Crystals''
              = Some (11 / 5)" by code_simp
  have h5': "select_price (env_catalog ex_env) ''Genshin Impact'' ''60 Genesis Crystals''
              = Some (11 / 10)" by code_simp
  have h6: "create_invoice (env_post repriced_env) (env_round2 repriced_env)
              (drop (length ''asset:'') (cb_data ?c)) (11 / 5)
              (''Genshin Impact'' @ '' - '' @ ''60 Genesis Crystals'' @ '' (nick: '' @ ''Player123'' @ '')'')
              (take 12 (env_uuid_hex repriced_env)) = JObj ?kvs"
    by code_simp
  have h7: "?kvs \<noteq> []" by simp
  have h8: "py_int (dict_get ?kvs ''invoice_id'') = Inr 42" by code_simp
  have h9: "sql_int (cb_user ?c)" "sql_int (env_time repriced_env)" "sql_int 42"
    by code_simp+
  have h10: "sql_bindable (dict_get ?kvs ''pay_url'')" by code_simp
  have h11: "take 12 (env_uuid_hex repriced_env) \<notin> set (map o_id [other_order])" by code_simp
  have v: "take 12 (env_uuid_hex repriced_env) = ''0123456789ab''"
          "drop (length ''asset:'') (cb_data ?c) = ''USDT''"
          "dict_get ?kvs ''pay_url'' = JStr ''https://pay.example/42''"
          "cb_user ?c = 7" "cb_username ?c = Some ''buyer''" "env_time repriced_env = 1700000000"
    by code_simp+
  have tg: "env_telegram repriced_env r" for r
    by (simp add: repriced_env_def ex_env_def)
  have o: "\<lparr>o_id = ''0123456789ab'', o_user_id = 7, o_username = Some ''buyer'',
             o_game = ''Genshin Impact'', o_package = ''60 Genesis Crystals'',
             o_price_usdt = 11 / 5, o_asset = ''USDT'', o_nickname = ''Player123'',
             o_created_at = 1700000000, o_status = ''pending'', o_invoice_id = 42,
             o_pay_url = JStr ''https://pay.example/42''\<rparr> = ex_order\<lparr>o_price_usdt := 11 / 5\<rparr>"
    by (simp add: ex_order_def)
  from commit_takes_price_at_commit [OF h1 h2 h3 h4 h5 h6 h7 h8 h9 h10 h11]
  have "choose_asset repriced_env ?c ex_ctx [other_order]
        = Inr (finish ex_ctx, [other_order, ex_order\<lparr>o_price_usdt := 11 / 5\<rparr>],
               [EditText (TxtOrderSummary ''0123456789ab'' ''Genshin Impact''
                            ''60 Genesis Crystals'' ''Player123'' (11 / 5) ''USDT'')
                  (pay_kb (JStr ''https://pay.example/42'') ''0123456789ab'' 42)])"
    unfolding v by (simp add: tg o)
  with h0 h5 h5' show ?thesis by simp
qed

text \<open>
  When the first run of the commit handler returns normally after creating an order,
  the session is cleared and the same callback delivered again runs no handler.
\<close>

lemma second_trigger_after_return:
  assumes "startswith (cb_data c) ''asset:''"
      and "fsm_state (storage w (cb_chat c, cb_user c)) = Some choosing_asset"
      and "process_callback e c w = Inr (w', rs)"
      and "orders w' \<noteq> orders w"
  shows "storage w' (cb_chat c, cb_user c) = \<lparr>fsm_state = None, fsm_data = []\<rparr>
         \<and> (\<exists>ord. orders w' = orders w @ [ord])
         \<and> process_callback e2 c w' = Inr (w', [])
         \<and> length (orders (run [(e, CallbackQuery c), (e2, CallbackQuery c)] w))
             = Suc (length (orders w))"
proof -
  let ?k = "(cb_chat c, cb_user c)"
  note np = not_other_prefix [OF assms(1)]
  from assms(1,2,3) np obtain ctx' rows' where
    ca: "choose_asset e c (storage w ?k) (orders w) = Inr (ctx', rows', rs)"
    and w': "w' = (put_ctx ?k ctx' w)\<lparr>orders := rows'\<rparr>"
    by (auto simp: process_callback_def Let_def split: sum.splits)
  have ne: "rows' \<noteq> orders w" using assms(4) w' by simp
  from choose_asset_Inr [OF ca] ne obtain ord where
    fin: "ctx' = finish (storage w ?k)" and rows': "rows' = orders w @ [ord]"
    by auto
  have st: "storage w' ?k = \<lparr>fsm_state = None, fsm_data = []\<rparr>"
    using w' fin by (simp add: put_ctx_def finish_def)
  have second: "process_callback e2 c w' = Inr (w', [])"
    using st assms(1) np by (simp add: process_callback_def Let_def)
  have "run [(e, CallbackQuery c), (e2, CallbackQuery c)] w = w'"
    using assms(3) second by (simp add: step_def)
  then show ?thesis using st rows' w' second by simp
qed

text \<open>
  C4. Claimed: a session creates at most one order even when the commit trigger is
  delivered twice, because the session is cleared after a successful commit. The
  handler inserts and commits the row, then edits the message, and clears the session
  last; when the edit raises, the row is in the table and the session is still in
  \<open>choosing_asset\<close>. The buyer whose nickname is \<^verbatim>\<open><3\<close> meets this: Telegram refuses the
  summary, the first press of the asset button leaves one order and the session
  uncleared, and the second press inserts a second order for the same session.
\<close>

theorem failed_edit_second_order:
  "map o_id (orders (run heart_flow init_world)) = [''0123456789ab'']
   \<and> fsm_state (storage (run heart_flow init_world) (7, 7)) = Some choosing_asset
   \<and> (case process_callback strict_env (ex_cb ''asset:USDT'') (run (butlast heart_flow) init_world) of
         Inl (err, w') \<Rightarrow> err = TelegramAPIError \<and> map o_id (orders w') = [''0123456789ab'']
       | Inr (w', rs) \<Rightarrow> False)
   \<and> map o_id (orders (run heart_trace init_world)) = [''0123456789ab'', ''fedcba987654'']
   \<and> map o_nickname (orders (run heart_trace init_world)) = [''<3'', ''<3'']
   \<and> map o_user_id (orders (run heart_trace init_world)) = [7, 7]"
  by code_simp

theorem failed_edit_second_order_witness:
  "length (orders (run heart_flow init_world)) = 1
   \<and> length (orders (run heart_trace init_world)) = 2"
proof -
  from failed_edit_second_order have
    a: "map o_id (orders (run heart_flow init_world)) = [''0123456789ab'']" and
    b: "map o_id (orders (run heart_trace init_world)) = [''0123456789ab'', ''fedcba987654'']"
    by blast+
  have "length (map o_id (orders (run heart_flow init_world))) = 1" unfolding a by simp
  moreover have "length (map o_id (orders (run heart_trace init_world))) = 2" unfolding b by simp
  ultimately show ?thesis by simp
qed

text \<open>
  C5. Claimed: a back event in \<open>choosing_package\<close> returns the session to the game
  selection, and a back event in \<open>choosing_asset\<close> returns it to \<open>choosing_package\<close>. The
  keyboards do end with the buttons \<^verbatim>\<open>back:games\<close> and \<^verbatim>\<open>back:packages\<close>, but no handler is
  registered for callback data that starts with \<^verbatim>\<open>back:\<close>: in every state the dispatcher
  runs nothing, and the state and the data stay as they were.
\<close>

theorem back_callbacks_unhandled:
  "process_callback e (c\<lparr>cb_data := ''back:games''\<rparr>) w = Inr (w, [])
   \<and> process_callback e (c\<lparr>cb_data := ''back:packages''\<rparr>) w = Inr (w, [])
   \<and> last (packages_kb cat g) = CallbackButton ''back:games''
   \<and> last assets_kb = CallbackButton ''back:packages''"
  by (simp add: process_callback_def Let_def packages_kb_def assets_kb_def startswith_Cons)

theorem back_callbacks_unhandled_witness:
  "fsm_state (storage ex_pkg_world (7, 7)) = Some choosing_package
   \<and> CallbackButton ''back:games'' \<in> set (packages_kb sample_catalog ''Genshin Impact'')
   \<and> process_callback ex_env (ex_cb ''back:games'') ex_pkg_world = Inr (ex_pkg_world, [])
   \<and> fsm_state (storage ex_world (7, 7)) = Some choosing_asset
   \<and> process_callback ex_env (ex_cb ''back:packages'') ex_world = Inr (ex_world, [])"
proof -
  have c1: "(ex_cb d)\<lparr>cb_data := ''back:games''\<rparr> = ex_cb ''back:games''" for d
    by (simp add: ex_cb_def)
  have c2: "(ex_cb d)\<lparr>cb_data := ''back:packages''\<rparr> = ex_cb ''back:packages''" for d
    by (simp add: ex_cb_def)
  have a: "fsm_state (storage ex_pkg_world (7, 7)) = Some choosing_package"
    by (simp add: ex_pkg_world_def put_ctx_def)
  have b: "fsm_state (storage ex_world (7, 7)) = Some choosing_asset"
    by (simp add: ex_world_def put_ctx_def ex_ctx_def)
  have m: "CallbackButton ''back:games'' \<in> set (packages_kb sample_catalog ''Genshin Impact'')"
    by (simp add: packages_kb_def)
  from back_callbacks_unhandled [of ex_env "ex_cb []" ex_pkg_world]
       back_callbacks_unhandled [of ex_env "ex_cb []" ex_world] a b m
  show ?thesis unfolding c1 c2 by simp
qed

text \<open>
  C6. When payment-request creation returns no result (\<^verbatim>\<open>None\<close>, or any value that
  \<^verbatim>\<open>not invoice\<close> accepts) at a commit attempt (session in \<open>choosing_asset\<close> with game,
  package and nickname recorded, pair resolving in the catalog), the reply is the
  invoice-failure alert, the handler returns normally and the whole state is unchanged:
  no row is inserted and the session stays in \<open>choosing_asset\<close> with its data. The failure
  of the gateway raises nothing; only Telegram refusing the alert itself raises, and
  the state is unchanged then too.
\<close>

theorem gateway_failure_keeps_session:
  assumes "startswith (cb_data c) ''asset:''"
      and "fsm_state (storage w (cb_chat c, cb_user c)) = Some choosing_asset"
      and "dict_item (fsm_data (storage w (cb_chat c, cb_user c))) ''game'' = Inr g"
      and "dict_item (fsm_data (storage w (cb_chat c, cb_user c))) ''package'' = Inr pkg"
      and "dict_item (fsm_data (storage w (cb_chat c, cb_user c))) ''nickname'' = Inr nick"
      and "select_price (env_catalog e) g pkg = Some price"
      and "\<not> truthy (create_invoice (env_post e) (env_round2 e)
             (drop (length ''asset:'') (cb_data c)) price
             (g @ '' - '' @ pkg @ '' (nick: '' @ nick @ '')'') (take 12 (env_uuid_hex e)))"
  shows "process_callback e c w =
           (if env_telegram e (Alert TxtInvoiceFailed)
            then Inr (w, [Alert TxtInvoiceFailed])
            else Inl (TelegramAPIError, w))"
proof -
  let ?k = "(cb_chat c, cb_user c)"
  have "choose_asset e c (storage w ?k) (orders w)
          = (if env_telegram e (Alert TxtInvoiceFailed)
             then Inr (storage w ?k, orders w, [Alert TxtInvoiceFailed])
             else Inl (TelegramAPIError, storage w ?k, orders w))"
    using assms asset_split [OF assms(1)] by (simp add: choose_asset_def Let_def)
  then show ?thesis
    using assms(1,2) not_other_prefix [OF assms(1)]
    by (simp add: process_callback_def Let_def put_ctx_same)
qed

theorem gateway_failure_keeps_session_witness:
  "create_invoice (env_post down_env) (env_round2 down_env) ''USDT'' (11 / 10)
      ''Genshin Impact - 60 Genesis Crystals (nick: Player123)'' ''0123456789ab'' = JNull
   \<and> fsm_state (storage ex_world (7, 7)) = Some choosing_asset
   \<and> process_callback down_env (ex_cb ''asset:USDT'') ex_world = Inr (ex_world, [Alert TxtInvoiceFailed])"
proof -
  let ?c = "ex_cb ''asset:USDT''"
  have k: "(cb_chat ?c, cb_user ?c) = (7, 7)" by (simp add: ex_cb_def)
  have h1: "startswith (cb_data ?c) ''asset:''" by code_simp
  have s: "storage ex_world (7, 7) = ex_ctx" by (simp add: ex_world_def put_ctx_def)
  have h2: "fsm_state (storage ex_world (cb_chat ?c, cb_user ?c)) = Some choosing_asset"
    unfolding k s by (simp add: ex_ctx_def)
  have h3: "dict_item (fsm_data (storage ex_world (cb_chat ?c, cb_user ?c))) ''game'' = Inr ''Genshin Impact''"
    unfolding k s by code_simp
  have h4: "dict_item (fsm_data (storage ex_world (cb_chat ?c, cb_user ?c))) ''package'' = Inr ''60 Genesis Crystals''"
    unfolding k s by code_simp
  have h5: "dict_item (fsm_data (storage ex_world (cb_chat ?c, cb_user ?c))) ''nickname'' = Inr ''Player123''"
    unfolding k s by code_simp
  have h6: "select_price (env_catalog down_env) ''Genshin Impact'' ''60 Genesis Crystals'' = Some (11 / 10)"
    by code_simp
  have h7: "\<not> truthy (create_invoice (env_post down_env) (env_round2 down_env)
             (drop (length ''asset:'') (cb_data ?c)) (11 / 10)
             (''Genshin Impact'' @ '' - '' @ ''60 Genesis Crystals'' @ '' (nick: '' @ ''Player123'' @ '')'')
             (take 12 (env_uuid_hex down_env)))"
    by code_simp
  have h8: "create_invoice (env_post down_env) (env_round2 down_env) ''USDT'' (11 / 10)
      ''Genshin Impact - 60 Genesis Crystals (nick: Player123)'' ''0123456789ab'' = JNull"
    by code_simp
  have t: "env_telegram down_env (Alert TxtInvoiceFailed)"
    by (simp add: down_env_def ex_env_def)
  from gateway_failure_keeps_session [OF h1 h2 h3 h4 h5 h6 h7] h8 h2 t
  show ?thesis unfolding k by simp
qed



text \<open>
  C9. In state \<open>entering_nickname\<close>, a message whose text is absent, empty or one
  character long is handled by no handler: the whole state is unchanged.
\<close>

theorem short_text_does_not_advance:
  assumes "fsm_state (storage w (m_chat m, m_user m)) = Some entering_nickname"
      and "\<forall>t. m_text m = Some t \<longrightarrow> length t \<le> 1"
  shows "process_message e m w = Inr (w, []) \<and> step (e, Message m) w = w"
proof -
  have "\<not> nickname_filter m"
    using assms(2) by (cases "m_text m") (auto simp: nickname_filter_def)
  then have "process_message e m w = Inr (w, [])"
    using assms(1) by (simp add: process_message_def Let_def)
  then show ?thesis by (simp add: step_def)
qed

theorem short_text_does_not_advance_witness:
  "fsm_state (storage ex_nick_world (7, 7)) = Some entering_nickname
   \<and> process_message ex_env (ex_msg (Some ''a'')) ex_nick_world = Inr (ex_nick_world, [])
   \<and> step (ex_env, Message (ex_msg (Some ''a''))) ex_nick_world = ex_nick_world"
proof -
  have h1: "fsm_state (storage ex_nick_world (m_chat (ex_msg (Some ''a'')), m_user (ex_msg (Some ''a''))))
              = Some entering_nickname"
    by (simp add: ex_nick_world_def ex_msg_def put_ctx_def)
  have h2: "\<forall>t. m_text (ex_msg (Some ''a'')) = Some t \<longrightarrow> length t \<le> 1"
    by (simp add: ex_msg_def)
  have h3: "fsm_state (storage ex_nick_world (7, 7)) = Some entering_nickname"
    by (simp add: ex_nick_world_def put_ctx_def)
  from short_text_does_not_advance [OF h1 h2, of ex_env] h3 show ?thesis by simp
qed

text \<open>
  C10. In state \<open>entering_nickname\<close>, a text longer than one character advances the
  session to \<open>choosing_asset\<close> and records the stripped text as the nickname (the session
  is written before the reply is sent, so this holds whether or not Telegram accepts
  the reply); the check is on the raw text only, and an order that the commit inserts
  carries the recorded nickname. So the text \<^verbatim>\<open>" a "\<close> is recorded as the one-character
  \<^verbatim>\<open>"a"\<close>, the text of two spaces is recorded as the empty string, and a flow with that
  text ends in an order whose nickname is empty.
\<close>

theorem nickname_stored_stripped:
  assumes "fsm_state (storage w (m_chat m, m_user m)) = Some entering_nickname"
      and "m_text m = Some t" and "1 < length t"
  shows "(env_telegram e (Answer TxtChooseAsset assets_kb) \<longrightarrow>
           (\<exists>w'. process_message e m w = Inr (w', [Answer TxtChooseAsset assets_kb])
              \<and> fsm_state (storage w' (m_chat m, m_user m)) = Some choosing_asset
              \<and> dict_item (fsm_data (storage w' (m_chat m, m_user m))) ''nickname'' = Inr (strip t)))
         \<and> fsm_state (storage (step (e, Message m) w) (m_chat m, m_user m)) = Some choosing_asset
         \<and> dict_item (fsm_data (storage (step (e, Message m) w) (m_chat m, m_user m))) ''nickname''
             = Inr (strip t)
         \<and> (\<forall>e c ctx rows ctx' rows' rs.
               choose_asset e c ctx rows = Inr (ctx', rows', rs) \<and> rows' \<noteq> rows
               \<longrightarrow> dict_item (fsm_data ctx) ''nickname'' = Inr (o_nickname (last rows')))
         \<and> 1 < length '' a '' \<and> strip '' a '' = ''a''
         \<and> 1 < length ''  '' \<and> strip ''  '' = []
         \<and> map o_nickname (orders (run (flow_with ''  '') init_world)) = [[]]"
proof -
  let ?k = "(m_chat m, m_user m)"
  let ?ctx1 = "set_state choosing_asset (update_data ''nickname'' (strip t) (storage w ?k))"
  have f: "nickname_filter m"
    using assms(2,3) by (auto simp: nickname_filter_def)
  have pm: "process_message e m w =
      (if env_telegram e (Answer TxtChooseAsset assets_kb)
       then Inr (put_ctx ?k ?ctx1 w, [Answer TxtChooseAsset assets_kb])
       else Inl (TelegramAPIError, put_ctx ?k ?ctx1 w))"
    using f assms(1,2) by (simp add: process_message_def Let_def got_nickname_def)
  have c1: "fsm_state (storage (put_ctx ?k ?ctx1 w) ?k) = Some choosing_asset"
           "dict_item (fsm_data (storage (put_ctx ?k ?ctx1 w) ?k)) ''nickname'' = Inr (strip t)"
    by (simp_all add: put_ctx_def set_state_def update_data_def dict_item_def update_conv')
  have a: "env_telegram e (Answer TxtChooseAsset assets_kb) \<longrightarrow>
           (\<exists>w'. process_message e m w = Inr (w', [Answer TxtChooseAsset assets_kb])
              \<and> fsm_state (storage w' ?k) = Some choosing_asset
              \<and> dict_item (fsm_data (storage w' ?k)) ''nickname'' = Inr (strip t))"
    using pm c1 by simp
  have st: "step (e, Message m) w = put_ctx ?k ?ctx1 w"
    using pm by (simp add: step_def)
  have b: "1 < length '' a ''" "strip '' a '' = ''a''" "1 < length ''  ''" "strip ''  '' = []"
    by code_simp+
  have c: "map o_nickname (orders (run (flow_with ''  '') init_world)) = [[]]"
    by code_simp
  have d: "dict_item (fsm_data ctx) ''nickname'' = Inr (o_nickname (last rows'))"
    if "choose_asset e c ctx rows = Inr (ctx', rows', rs) \<and> rows' \<noteq> rows"
    for e c ctx rows ctx' rows' rs
    using choose_asset_Inr [of e c ctx rows ctx' rows' rs] that by auto
  from a b c d c1 show ?thesis unfolding st by blast
qed

theorem nickname_stored_stripped_witness:
  "fsm_state (storage ex_nick_world (7, 7)) = Some entering_nickname
   \<and> 1 < length '' a ''
   \<and> (\<exists>w'. process_message ex_env (ex_msg (Some '' a '')) ex_nick_world
               = Inr (w', [Answer TxtChooseAsset assets_kb])
         \<and> fsm_state (storage w' (7, 7)) = Some choosing_asset
         \<and> dict_item (fsm_data (storage w' (7, 7))) ''nickname'' = Inr ''a'')"
proof -
  have h1: "fsm_state (storage ex_nick_world (m_chat (ex_msg (Some '' a '')), m_user (ex_msg (Some '' a ''))))
              = Some entering_nickname"
    by (simp add: ex_nick_world_def ex_msg_def put_ctx_def)
  have h2: "m_text (ex_msg (Some '' a '')) = Some '' a ''" by (simp add: ex_msg_def)
  have h3: "1 < length '' a ''" by simp
  have s: "strip '' a '' = ''a''" by code_simp
  have k: "m_chat (ex_msg (Some '' a '')) = 7" "m_user (ex_msg (Some '' a '')) = 7"
    by (simp_all add: ex_msg_def)
  have t: "env_telegram ex_env (Answer TxtChooseAsset assets_kb)" by (simp add: ex_env_def)
  from nickname_stored_stripped [OF h1 h2 h3, of ex_env] h1 h3 t show ?thesis
    unfolding s k by blast
qed

end
